theory Spec2Isabelle
  imports Complex_Main "HOL-Library.Sublist"
begin

section \<open>Python strings and the builtins the worker uses\<close>

text \<open>
  Strings are lists of 8-bit characters holding the UTF-8 encoding of the Python string.
  Every character the code looks for (digits, \<open>:\<close>, \<open>.\<close>, \<open>/\<close>, white space) is ASCII
  and never occurs inside a multi-byte sequence, so splitting and searching on bytes agrees
  with Python's splitting and searching on code points. Non-ASCII digits and white space,
  which Python's \<open>\\d\<close>, \<open>int\<close> and \<open>strip\<close> also accept, are outside the model.
  A Python float is a \<open>real\<close>: decimal literals are read exactly, rounding is not modelled.
\<close>

datatype py_error = ValueError | IndexError | OSError | FileNotFoundError

definition is_digit :: "char \<Rightarrow> bool" where
  "is_digit c = (48 \<le> (of_char c :: nat) \<and> (of_char c :: nat) \<le> 57)"

definition digit_val :: "char \<Rightarrow> nat" where
  "digit_val c = of_char c - 48"

definition digits_val :: "string \<Rightarrow> nat" where
  "digits_val s = foldl (\<lambda>n c. 10 * n + digit_val c) 0 s"

text \<open>\<open>str.isspace\<close> on ASCII: tab, line feed, VT, FF, CR, the separators 28 to 31, space.\<close>

definition is_space :: "char \<Rightarrow> bool" where
  "is_space c = (let n = (of_char c :: nat) in (9 \<le> n \<and> n \<le> 13) \<or> (28 \<le> n \<and> n \<le> 32))"

definition py_strip :: "string \<Rightarrow> string" where
  "py_strip s = rev (dropWhile is_space (rev (dropWhile is_space s)))"

text \<open>
  \<open>int(s)\<close> and \<open>float(s)\<close> on plain decimal literals, the only strings the worker passes
  to them (groups of \<open>\\d+\<close> cut at colons). Signs, surrounding white space, underscores,
  exponents and \<open>inf\<close>/\<open>nan\<close>, which Python accepts too, are not modelled and read as
  \<open>ValueError\<close> here; so is nothing else.
\<close>

definition py_int :: "string \<Rightarrow> py_error + int" where
  "py_int s = (if s \<noteq> [] \<and> list_all is_digit s then Inr (int (digits_val s)) else Inl ValueError)"

definition py_float :: "string \<Rightarrow> py_error + real" where
  "py_float s =
     (let ip = takeWhile (\<lambda>c. c \<noteq> CHR ''.'') s;
          fp = tl (dropWhile (\<lambda>c. c \<noteq> CHR ''.'') s)
      in if list_all is_digit ip \<and> list_all is_digit fp \<and> (ip \<noteq> [] \<or> fp \<noteq> [])
         then Inr (real (digits_val ip) + real (digits_val fp) / 10 ^ length fp)
         else Inl ValueError)"

text \<open>\<open>s.split(c)\<close> for a one-character separator: never empty, one more part than separators.\<close>

fun split_on :: "char \<Rightarrow> string \<Rightarrow> string list" where
  "split_on c [] = [[]]"
| "split_on c (x # xs) =
     (if x = c then [] # split_on c xs
      else (case split_on c xs of [] \<Rightarrow> [[x]] | y # ys \<Rightarrow> (x # y) # ys))"

subsection \<open>The two regular expressions\<close>

text \<open>
  \<open>re.search(lit + r"(\\d+:\\d+:\\d+\\.\\d+)", s)\<close> for a literal \<open>lit\<close>
  (\<open>"Duration: "\<close> or \<open>"time="\<close>): the leftmost position where the pattern matches, and
  group 1 there. Each \<open>\\d+\<close> is followed by a non-digit or by the end of the pattern, so the
  greedy match is the maximal run of digits and backtracking into it never succeeds.
\<close>

definition take_digits :: "string \<Rightarrow> (string \<times> string) option" where
  "take_digits s =
     (let d = takeWhile is_digit s in if d = [] then None else Some (d, dropWhile is_digit s))"

definition expect_char :: "char \<Rightarrow> string \<Rightarrow> string option" where
  "expect_char c s = (case s of [] \<Rightarrow> None | x # xs \<Rightarrow> if x = c then Some xs else None)"

definition match_hms :: "string \<Rightarrow> string option" where
  "match_hms s =
     (case take_digits s of None \<Rightarrow> None | Some (h, r1) \<Rightarrow>
      case expect_char CHR '':'' r1 of None \<Rightarrow> None | Some r2 \<Rightarrow>
      case take_digits r2 of None \<Rightarrow> None | Some (m, r3) \<Rightarrow>
      case expect_char CHR '':'' r3 of None \<Rightarrow> None | Some r4 \<Rightarrow>
      case take_digits r4 of None \<Rightarrow> None | Some (sec, r5) \<Rightarrow>
      case expect_char CHR ''.'' r5 of None \<Rightarrow> None | Some r6 \<Rightarrow>
      case take_digits r6 of None \<Rightarrow> None | Some (f, r7) \<Rightarrow>
        Some (h @ '':'' @ m @ '':'' @ sec @ ''.'' @ f))"

fun re_search :: "string \<Rightarrow> string \<Rightarrow> string option" where
  "re_search lit [] = None"
| "re_search lit (c # cs) =
     (if prefix lit (c # cs)
      then (case match_hms (drop (length lit) (c # cs)) of
              Some g \<Rightarrow> Some g
            | None \<Rightarrow> re_search lit cs)
      else re_search lit cs)"

subsection \<open>\<open>os.path\<close> (the POSIX flavour)\<close>

text \<open>\<open>s.rfind(c)\<close>: the index of the last \<open>c\<close> in \<open>s\<close>, or \<open>-1\<close>.\<close>

definition rfind :: "char \<Rightarrow> string \<Rightarrow> int" where
  "rfind c s =
     (if c \<in> set s then int (length s) - 1 - int (length (takeWhile (\<lambda>x. x \<noteq> c) (rev s)))
      else - 1)"

definition basename :: "string \<Rightarrow> string" where
  "basename p = drop (nat (rfind CHR ''/'' p + 1)) p"

text \<open>
  \<open>splitext\<close>: the extension starts at the last dot, when that dot comes after the last
  slash and some character between the slash and the dot is not a dot (the library's loop
  over the leading dots of the file name).
\<close>

definition splitext :: "string \<Rightarrow> string \<times> string" where
  "splitext p =
     (let sepIndex = rfind CHR ''/'' p; dotIndex = rfind CHR ''.'' p in
      if dotIndex > sepIndex \<and>
         list_ex (\<lambda>c. c \<noteq> CHR ''.'')
           (take (nat (dotIndex - (sepIndex + 1))) (drop (nat (sepIndex + 1)) p))
      then (take (nat dotIndex) p, drop (nat dotIndex) p)
      else (p, []))"

definition path_join :: "string \<Rightarrow> string \<Rightarrow> string" where
  "path_join a b =
     (if prefix ''/'' b then b
      else if a = [] \<or> suffix ''/'' a then a @ b
      else a @ ''/'' @ b)"

section \<open>The conversion worker\<close>

subsection \<open>\<open>_time_str_to_seconds\<close>\<close>

definition time_str_to_seconds :: "string \<Rightarrow> py_error + real" where
  "time_str_to_seconds time_str =
     (let hms = split_on CHR '':'' time_str in
      if length hms = 3 then
        (case py_int (hms ! 0) of Inl e \<Rightarrow> Inl e | Inr hours \<Rightarrow>
         case py_int (hms ! 1) of Inl e \<Rightarrow> Inl e | Inr minutes \<Rightarrow>
         case py_float (hms ! 2) of Inl e \<Rightarrow> Inl e | Inr seconds \<Rightarrow>
           Inr (real_of_int (hours * 3600 + minutes * 60) + seconds))
      else if length hms = 2 then
        (case py_int (hms ! 0) of Inl e \<Rightarrow> Inl e | Inr minutes \<Rightarrow>
         case py_float (hms ! 1) of Inl e \<Rightarrow> Inl e | Inr seconds \<Rightarrow>
           Inr (real_of_int (minutes * 60) + seconds))
      else Inr 0)"

subsection \<open>Events, subprocess outcomes and the worker's state\<close>

text \<open>
  The text of an \<open>error_signal\<close>, by the statement that emits it: the input file does not
  exist (with the path), audio extraction failed, direct conversion failed, the exception
  caught around \<open>run\<close>, and the text a subprocess wrote to its standard error, stripped.
\<close>

datatype message =
    InputMissing string
  | ExtractFailed
  | DirectFailed
  | ThreadException py_error
  | FFmpegOutput string

datatype event =
    Progress real string
  | Finished string real
  | Error message

text \<open>
  What one subprocess does while the worker waits in \<open>waitForFinished(-1)\<close>: each
  \<open>readyRead\<close> notification with the bytes the slot reads, in order; the exit code; whether
  the file named last on the command line exists afterwards; and whether \<open>cancel()\<close> is
  called from outside before the wait returns.
\<close>

datatype chunk = Stdout string | Stderr string

record proc_result =
  chunks :: "chunk list"
  exit_code :: int
  creates_output :: bool
  cancel_during :: bool

text \<open>
  Everything \<open>run\<close> reads from outside: whether \<open>os.makedirs\<close> succeeds, the standard
  error of the probe, whether \<open>cancel()\<close> is called before the first conversion subprocess
  starts, the outcomes of the merge subprocess and of the encoding subprocess (extraction
  or direct conversion), and the two readings of \<open>time.time()\<close>.
\<close>

record env =
  makedirs_ok :: bool
  probe_stderr :: string
  cancel_early :: bool
  merge_result :: proc_result
  encode_result :: proc_result
  clock_start :: real
  clock_end :: real

text \<open>
  The attributes of \<open>FFmpegWorker\<close> that \<open>run\<close> uses (\<open>process_exit\<close> is
  \<open>self._process.exitCode()\<close>, absent before the first subprocess), followed by what the
  worker does to the outside: the events emitted, the command lines started through
  \<open>_run_ffmpeg\<close>, and the paths that exist.
\<close>

record state =
  input_path :: string
  output_dir :: string
  use_loudnorm :: bool
  ffmpeg_path :: string
  total_duration :: real
  is_cancelled :: bool
  start_time :: real
  process_exit :: "int option"
  events :: "event list"
  launched :: "string list list"
  files :: "string set"

text \<open>
  \<open>__init__\<close>. The path found by \<open>find_ffmpeg\<close> is a parameter; \<open>_has_video\<close>, which
  \<open>run\<close> never reads, is left out.
\<close>

definition init_worker :: "string \<Rightarrow> string \<Rightarrow> bool \<Rightarrow> string \<Rightarrow> string set \<Rightarrow> state" where
  "init_worker inp odir loudnorm ffmpeg fs =
     \<lparr>input_path = inp, output_dir = odir, use_loudnorm = loudnorm, ffmpeg_path = ffmpeg,
      total_duration = 0, is_cancelled = False, start_time = 0, process_exit = None,
      events = [], launched = [], files = fs\<rparr>"

definition emit :: "event \<Rightarrow> state \<Rightarrow> state" where
  "emit e st = st\<lparr>events := events st @ [e]\<rparr>"

text \<open>\<open>cancel\<close>: the flag; the kill shows in the outcome of the subprocess.\<close>

definition cancel :: "state \<Rightarrow> state" where
  "cancel st = st\<lparr>is_cancelled := True\<rparr>"

subsection \<open>The slots and \<open>_run_ffmpeg\<close>\<close>

text \<open>An exception inside a slot is not propagated to \<open>run\<close>: the slot just ends.\<close>

definition read_stdout :: "string \<Rightarrow> state \<Rightarrow> state" where
  "read_stdout stdout st =
     (if py_strip stdout \<noteq> [] then
        (case re_search ''time='' stdout of
           None \<Rightarrow> st
         | Some g \<Rightarrow>
             if total_duration st > 0 then
               (case time_str_to_seconds g of
                  Inl e \<Rightarrow> st
                | Inr current_time \<Rightarrow>
                    emit (Progress (current_time / total_duration st)
                            (basename (input_path st))) st)
             else st)
      else st)"

definition read_stderr :: "string \<Rightarrow> state \<Rightarrow> state" where
  "read_stderr stderr st =
     (if py_strip stderr \<noteq> [] then emit (Error (FFmpegOutput (py_strip stderr))) st else st)"

fun deliver :: "chunk \<Rightarrow> state \<Rightarrow> state" where
  "deliver (Stdout s) st = read_stdout s st"
| "deliver (Stderr s) st = read_stderr s st"

definition run_ffmpeg :: "string list \<Rightarrow> proc_result \<Rightarrow> state \<Rightarrow> state" where
  "run_ffmpeg command res st =
     (let st1 = st\<lparr>launched := launched st @ [command]\<rparr>;
          st2 = fold deliver (chunks res) st1;
          st3 = (if creates_output res
                 then st2\<lparr>files := insert (last command) (files st2)\<rparr> else st2);
          st4 = (if cancel_during res then cancel st3 else st3)
      in st4\<lparr>process_exit := Some (exit_code res)\<rparr>)"

subsection \<open>The three command lines\<close>

definition merge_cmd :: "state \<Rightarrow> string list \<Rightarrow> string \<Rightarrow> string list" where
  "merge_cmd st input_files output_file =
     [ffmpeg_path st, ''-y'', ''-i'', input_files ! 0, ''-i'', input_files ! 1,
      ''-c:v'', ''copy'', ''-c:a'', ''copy'', ''-f'', ''mpegts'', output_file]"

definition audio_extract_cmd :: "state \<Rightarrow> string \<Rightarrow> string \<Rightarrow> string list" where
  "audio_extract_cmd st input_file output_file =
     [ffmpeg_path st, ''-y'', ''-i'', input_file,
      ''-vn'', ''-ar'', ''44100'', ''-ac'', ''2'', ''-b:a'', ''192k'']
     @ (if use_loudnorm st then [''-af'', ''loudnorm''] else [])
     @ [output_file]"

definition direct_convert_cmd :: "state \<Rightarrow> string \<Rightarrow> string \<Rightarrow> string list" where
  "direct_convert_cmd st input_file output_file =
     [ffmpeg_path st, ''-y'', ''-i'', input_file,
      ''-vn'', ''-ar'', ''44100'', ''-ac'', ''2'', ''-b:a'', ''192k'']
     @ (if use_loudnorm st then [''-af'', ''loudnorm''] else [])
     @ [output_file]"

text \<open>Indexing a list of fewer than two input files raises \<open>IndexError\<close>.\<close>

definition run_merge :: "string list \<Rightarrow> string \<Rightarrow> proc_result \<Rightarrow> state \<Rightarrow> py_error + state" where
  "run_merge input_files output_file res st =
     (if length input_files < 2 then Inl IndexError
      else Inr (run_ffmpeg (merge_cmd st input_files output_file) res st))"

definition run_audio_extract :: "string \<Rightarrow> string \<Rightarrow> proc_result \<Rightarrow> state \<Rightarrow> state" where
  "run_audio_extract input_file output_file res st =
     run_ffmpeg (audio_extract_cmd st input_file output_file) res st"

definition run_direct_convert :: "string \<Rightarrow> string \<Rightarrow> proc_result \<Rightarrow> state \<Rightarrow> state" where
  "run_direct_convert input_file output_file res st =
     run_ffmpeg (direct_convert_cmd st input_file output_file) res st"

subsection \<open>\<open>run\<close>\<close>

definition os_remove :: "string \<Rightarrow> state \<Rightarrow> py_error + state" where
  "os_remove p st =
     (if p \<in> files st then Inr (st\<lparr>files := files st - {p}\<rparr>) else Inl FileNotFoundError)"

definition output_path_of :: "string \<Rightarrow> string \<Rightarrow> string" where
  "output_path_of inp odir =
     (let base_name = fst (splitext (basename inp));
          output_mp3 = base_name @ ''.mp3''
      in path_join odir output_mp3)"

text \<open>The sibling audio segment and the intermediate file of the merge path.\<close>

definition audio_file_of :: "string \<Rightarrow> string" where
  "audio_file_of inp = fst (splitext inp) @ ''.m4a''"

definition merged_ts_of :: "string \<Rightarrow> string" where
  "merged_ts_of inp = fst (splitext inp) @ ''_merged.ts''"

definition probe_duration :: "env \<Rightarrow> state \<Rightarrow> py_error + state" where
  "probe_duration env st =
     (case re_search ''Duration: '' (probe_stderr env) of
        None \<Rightarrow> Inr st
      | Some g \<Rightarrow>
          (case time_str_to_seconds g of
             Inl e \<Rightarrow> Inl e
           | Inr d \<Rightarrow> Inr (st\<lparr>total_duration := d\<rparr>)))"

text \<open>
  The body of the \<open>try\<close>: the state reached, and the exception raised there if any.
  \<open>makedirs\<close> is recorded as the output directory existing afterwards.
\<close>

definition run_body :: "env \<Rightarrow> state \<Rightarrow> state \<times> py_error option" where
  "run_body env st0 =
     (let st1 = st0\<lparr>start_time := clock_start env\<rparr> in
      if input_path st1 \<notin> files st1
      then (emit (Error (InputMissing (input_path st1))) st1, None)
      else if \<not> makedirs_ok env then (st1, Some OSError)
      else
        let st2 = st1\<lparr>files := insert (output_dir st1) (files st1)\<rparr>;
            output_path = output_path_of (input_path st2) (output_dir st2)
        in
        case probe_duration env st2 of
          Inl e \<Rightarrow> (st2, Some e)
        | Inr st3 \<Rightarrow>
            let st4 = (if cancel_early env then cancel st3 else st3);
                audio_file = audio_file_of (input_path st4)
            in
            if audio_file \<in> files st4 then
              let merged_ts = merged_ts_of (input_path st4) in
              (case run_merge [input_path st4, audio_file] merged_ts (merge_result env) st4 of
                 Inl e \<Rightarrow> (st4, Some e)
               | Inr st5 \<Rightarrow>
                   if is_cancelled st5 then (st5, None)
                   else
                     let st6 = run_audio_extract merged_ts output_path (encode_result env) st5 in
                     if is_cancelled st6 then
                       (case os_remove merged_ts st6 of
                          Inl e \<Rightarrow> (st6, Some e)
                        | Inr st7 \<Rightarrow> (st7, None))
                     else if process_exit st6 = Some 0 then
                       let duration = clock_end env - start_time st6;
                           st7 = emit (Finished output_path duration) st6
                       in (case os_remove merged_ts st7 of
                             Inl e \<Rightarrow> (st7, Some e)
                           | Inr st8 \<Rightarrow> (st8, None))
                     else (emit (Error ExtractFailed) st6, None))
            else
              let st5 = run_direct_convert (input_path st4) output_path (encode_result env) st4 in
              if is_cancelled st5 then (st5, None)
              else if process_exit st5 = Some 0 then
                let duration = clock_end env - start_time st5
                in (emit (Finished output_path duration) st5, None)
              else (emit (Error DirectFailed) st5, None))"

definition run :: "env \<Rightarrow> state \<Rightarrow> state" where
  "run env st0 =
     (case run_body env st0 of
        (st, None) \<Rightarrow> st
      | (st, Some e) \<Rightarrow> emit (Error (ThreadException e)) st)"

section \<open>Vocabulary of the properties\<close>

text \<open>A non-empty string of decimal digits, what \<open>\\d+\<close> matches.\<close>

definition all_digits :: "string \<Rightarrow> bool" where
  "all_digits s = (s \<noteq> [] \<and> list_all is_digit s)"

text \<open>
  What one notification contributes: the time of the first \<open>time=\<close> token of a chunk of
  standard output, the stripped text of a non-blank chunk of standard error, and the events
  a worker with total duration \<open>d\<close> and input base name \<open>name\<close> emits for it.
\<close>

fun reported_times :: "chunk \<Rightarrow> real list" where
  "reported_times (Stdout s) =
     (case re_search ''time='' s of
        None \<Rightarrow> []
      | Some g \<Rightarrow> (case time_str_to_seconds g of Inl e \<Rightarrow> [] | Inr t \<Rightarrow> [t]))"
| "reported_times (Stderr s) = []"

fun stderr_texts :: "chunk \<Rightarrow> string list" where
  "stderr_texts (Stdout s) = []"
| "stderr_texts (Stderr s) = (if py_strip s \<noteq> [] then [py_strip s] else [])"

definition chunk_events :: "real \<Rightarrow> string \<Rightarrow> chunk \<Rightarrow> event list" where
  "chunk_events d name c =
     (if d > 0 then map (\<lambda>t. Progress (t / d) name) (reported_times c) else [])
     @ map (\<lambda>s. Error (FFmpegOutput s)) (stderr_texts c)"

text \<open>The total duration that the probe output yields: 0 without a \<open>Duration:\<close> token.\<close>

definition probed_duration :: "env \<Rightarrow> real" where
  "probed_duration env =
     (case re_search ''Duration: '' (probe_stderr env) of
        None \<Rightarrow> 0
      | Some g \<Rightarrow> (case time_str_to_seconds g of Inl e \<Rightarrow> 0 | Inr d \<Rightarrow> d))"

definition job_events :: "env \<Rightarrow> string \<Rightarrow> proc_result \<Rightarrow> event list" where
  "job_events env inp res =
     concat (map (chunk_events (probed_duration env) (basename inp)) (chunks res))"

text \<open>
  The branches of \<open>run\<close>: whether the sibling audio segment exists when it is looked for
  (after \<open>makedirs\<close>), and whether the flag is set at the check that follows the merge.
\<close>

definition merge_path :: "string \<Rightarrow> string \<Rightarrow> string set \<Rightarrow> bool" where
  "merge_path inp odir fs = (audio_file_of inp \<in> insert odir fs)"

definition merge_cancelled :: "env \<Rightarrow> bool" where
  "merge_cancelled env = (cancel_early env \<or> cancel_during (merge_result env))"

text \<open>
  The chunks that reach the slots during a job, the times reported in them and the
  standard-error texts in them.
\<close>

definition delivered :: "env \<Rightarrow> string \<Rightarrow> string \<Rightarrow> string set \<Rightarrow> chunk list" where
  "delivered env inp odir fs =
     (if inp \<notin> fs \<or> \<not> makedirs_ok env then []
      else if merge_path inp odir fs then
        chunks (merge_result env) @ (if merge_cancelled env then [] else chunks (encode_result env))
      else chunks (encode_result env))"

definition job_times :: "env \<Rightarrow> string \<Rightarrow> string \<Rightarrow> string set \<Rightarrow> real list" where
  "job_times env inp odir fs = concat (map reported_times (delivered env inp odir fs))"

definition job_stderr :: "env \<Rightarrow> string \<Rightarrow> string \<Rightarrow> string set \<Rightarrow> string list" where
  "job_stderr env inp odir fs = concat (map stderr_texts (delivered env inp odir fs))"

text \<open>The paths that exist when the merge, and then the extraction, has ended.\<close>

definition files_after_merge :: "env \<Rightarrow> string \<Rightarrow> string \<Rightarrow> string set \<Rightarrow> string set" where
  "files_after_merge env inp odir fs =
     (if creates_output (merge_result env) then insert (merged_ts_of inp) (insert odir fs)
      else insert odir fs)"

definition files_after_extract :: "env \<Rightarrow> string \<Rightarrow> string \<Rightarrow> string set \<Rightarrow> string set" where
  "files_after_extract env inp odir fs =
     (if creates_output (encode_result env)
      then insert (output_path_of inp odir) (files_after_merge env inp odir fs)
      else files_after_merge env inp odir fs)"

definition final_files :: "env \<Rightarrow> string \<Rightarrow> string \<Rightarrow> string set \<Rightarrow> string set" where
  "final_files env inp odir fs =
     (if inp \<notin> fs \<or> \<not> makedirs_ok env then fs
      else if merge_path inp odir fs then
        (if merge_cancelled env then files_after_merge env inp odir fs
         else if cancel_during (encode_result env) \<or> exit_code (encode_result env) = 0
         then files_after_extract env inp odir fs - {merged_ts_of inp}
         else files_after_extract env inp odir fs)
      else if creates_output (encode_result env)
      then insert (output_path_of inp odir) (insert odir fs)
      else insert odir fs)"

text \<open>
  The events that \<open>run\<close> itself emits after the subprocesses, by branch; \<open>os.remove\<close>
  raises when the intermediate file is not there.
\<close>

definition encode_outcome :: "env \<Rightarrow> string \<Rightarrow> string \<Rightarrow> message \<Rightarrow> event list" where
  "encode_outcome env inp odir failed =
     (if exit_code (encode_result env) = 0
      then [Finished (output_path_of inp odir) (clock_end env - clock_start env)]
      else [Error failed])"

definition removal_raises :: "env \<Rightarrow> string \<Rightarrow> string \<Rightarrow> string set \<Rightarrow> bool" where
  "removal_raises env inp odir fs =
     ((cancel_during (encode_result env) \<or> exit_code (encode_result env) = 0)
      \<and> merged_ts_of inp \<notin> files_after_extract env inp odir fs)"

definition final_events :: "env \<Rightarrow> string \<Rightarrow> string \<Rightarrow> string set \<Rightarrow> event list" where
  "final_events env inp odir fs =
     (if inp \<notin> fs then [Error (InputMissing inp)]
      else if \<not> makedirs_ok env then [Error (ThreadException OSError)]
      else if merge_path inp odir fs then
        (if merge_cancelled env then []
         else (if cancel_during (encode_result env) then []
               else encode_outcome env inp odir ExtractFailed)
              @ (if removal_raises env inp odir fs
                 then [Error (ThreadException FileNotFoundError)] else []))
      else if cancel_early env \<or> cancel_during (encode_result env) then []
      else encode_outcome env inp odir DirectFailed)"

text \<open>The two command lines, written out.\<close>

definition merge_line :: "string \<Rightarrow> string \<Rightarrow> string list" where
  "merge_line ff inp =
     [ff, ''-y'', ''-i'', inp, ''-i'', audio_file_of inp,
      ''-c:v'', ''copy'', ''-c:a'', ''copy'', ''-f'', ''mpegts'', merged_ts_of inp]"

definition encode_line :: "string \<Rightarrow> bool \<Rightarrow> string \<Rightarrow> string \<Rightarrow> string list" where
  "encode_line ff nz src out =
     [ff, ''-y'', ''-i'', src, ''-vn'', ''-ar'', ''44100'', ''-ac'', ''2'', ''-b:a'', ''192k'']
     @ (if nz then [''-af'', ''loudnorm''] else []) @ [out]"

text \<open>
  Kinds of events: Progress events and their fractions; Errors that forward standard-error
  text; Errors that report a failure. A step of a job fails when the input is missing,
  \<open>makedirs\<close> raises, a subprocess (the merge or the encode) of a job that is not
  cancelled at the check that follows it exits with a non-zero code, or \<open>os.remove\<close>
  raises. \<open>merge_fails\<close> singles out the merge subprocess exiting with a non-zero code.
\<close>

fun is_progress :: "event \<Rightarrow> bool" where
  "is_progress (Progress f n) = True"
| "is_progress e = False"

fun fraction :: "event \<Rightarrow> real" where
  "fraction (Progress f n) = f"
| "fraction e = 0"

definition progress_fractions :: "event list \<Rightarrow> real list" where
  "progress_fractions evs = map fraction (filter is_progress evs)"

fun is_forwarded :: "event \<Rightarrow> bool" where
  "is_forwarded (Error (FFmpegOutput s)) = True"
| "is_forwarded e = False"

fun is_failure :: "event \<Rightarrow> bool" where
  "is_failure (Error (FFmpegOutput s)) = False"
| "is_failure (Error m) = True"
| "is_failure e = False"

definition merge_fails :: "env \<Rightarrow> string \<Rightarrow> string \<Rightarrow> string set \<Rightarrow> bool" where
  "merge_fails env inp odir fs =
     (inp \<in> fs \<and> makedirs_ok env \<and> merge_path inp odir fs \<and> \<not> merge_cancelled env
      \<and> exit_code (merge_result env) \<noteq> 0)"

definition step_fails :: "env \<Rightarrow> string \<Rightarrow> string \<Rightarrow> string set \<Rightarrow> bool" where
  "step_fails env inp odir fs =
     (inp \<notin> fs
      \<or> \<not> makedirs_ok env
      \<or> merge_fails env inp odir fs
      \<or> (if merge_path inp odir fs
         then \<not> merge_cancelled env \<and>
              ((\<not> cancel_during (encode_result env) \<and> exit_code (encode_result env) \<noteq> 0)
               \<or> removal_raises env inp odir fs)
         else \<not> cancel_early env \<and> \<not> cancel_during (encode_result env)
              \<and> exit_code (encode_result env) \<noteq> 0))"

subsection \<open>Sample runs\<close>

text \<open>
  A job of ten seconds whose subprocesses succeed: the merge reports 9 seconds, the encode
  reports 5 and then 20 seconds and writes one line to its standard error. Variants: the
  job is cancelled while the merge runs; the extraction fails; the probe finds no duration.
  \<open>merge_fs\<close> holds an input with its sibling audio segment, \<open>direct_fs\<close> an input alone.
\<close>

definition ok_proc :: "chunk list \<Rightarrow> proc_result" where
  "ok_proc cs = \<lparr>chunks = cs, exit_code = 0, creates_output = True, cancel_during = False\<rparr>"

definition demo_env :: env where
  "demo_env =
     \<lparr>makedirs_ok = True,
      probe_stderr = ''  Duration: 00:00:10.00, start: 0.000000, bitrate: 128 kb/s'',
      cancel_early = False,
      merge_result = ok_proc [Stdout ''time=00:00:09.00''],
      encode_result =
        ok_proc [Stdout ''time=00:00:05.00'', Stderr '' size=10kB '', Stdout ''time=00:00:20.00''],
      clock_start = 100,
      clock_end = 104\<rparr>"

definition merge_fs :: "string set" where
  "merge_fs = {''/v/a.m4s'', ''/v/a.m4a''}"

definition cancel_env :: env where
  "cancel_env =
     demo_env\<lparr>merge_result :=
       \<lparr>chunks = [Stdout ''time=00:00:03.00''], exit_code = 255, creates_output = True,
        cancel_during = True\<rparr>\<rparr>"

definition failing_env :: env where
  "failing_env =
     demo_env\<lparr>encode_result :=
       \<lparr>chunks = [Stderr ''Conversion failed!''], exit_code = 1, creates_output = False,
        cancel_during = False\<rparr>\<rparr>"

definition silent_probe_env :: env where
  "silent_probe_env = demo_env\<lparr>probe_stderr := ''/v/a.m4s: Invalid data found''\<rparr>"

definition direct_fs :: "string set" where
  "direct_fs = {''/v/clip one.mp4''}"

section \<open>Supporting lemmas\<close>

lemma split_on_absent: "c \<notin> set s \<Longrightarrow> split_on c s = [s]"
  by (induction s) auto

lemma split_on_append: "c \<notin> set a \<Longrightarrow> split_on c (a @ c # b) = a # split_on c b"
  by (induction a) auto

lemma colon_not_digit: "\<not> is_digit CHR '':''" 
  by (simp add: is_digit_def)

lemma dot_not_digit: "\<not> is_digit CHR ''.''" 
  by (simp add: is_digit_def)

lemma all_digits_no_colon: "all_digits s \<Longrightarrow> CHR '':'' \<notin> set s"
  using colon_not_digit by (auto simp: all_digits_def list_all_iff)

lemma all_digits_no_dot: "all_digits s \<Longrightarrow> CHR ''.'' \<notin> set s"
  using dot_not_digit by (auto simp: all_digits_def list_all_iff)

lemma py_int_digits: "all_digits s \<Longrightarrow> py_int s = Inr (int (digits_val s))"
  by (simp add: py_int_def all_digits_def)

lemma py_float_digits:
  assumes "all_digits s" "all_digits f"
  shows "py_float (s @ CHR ''.'' # f) = Inr (real (digits_val s) + real (digits_val f) / 10 ^ length f)"
proof -
  have a: "takeWhile (\<lambda>c. c \<noteq> CHR ''.'') (s @ CHR ''.'' # f) = s"
    using all_digits_no_dot[OF assms(1)] by (simp add: takeWhile_append)
  have b: "dropWhile (\<lambda>c. c \<noteq> CHR ''.'') (s @ CHR ''.'' # f) = CHR ''.'' # f"
    using all_digits_no_dot[OF assms(1)] by (simp add: dropWhile_append)
  show ?thesis using assms unfolding py_float_def a b by (simp add: all_digits_def)
qed

lemma split_hms:
  assumes "all_digits h" "all_digits m" "all_digits s" "all_digits f"
  shows "split_on CHR '':'' (h @ CHR '':'' # m @ CHR '':'' # s @ CHR ''.'' # f) = [h, m, s @ CHR ''.'' # f]"
proof -
  have "CHR '':'' \<notin> set (s @ CHR ''.'' # f)"
    using all_digits_no_colon[OF assms(3)] all_digits_no_colon[OF assms(4)] by simp
  then show ?thesis
    using all_digits_no_colon[OF assms(1)] all_digits_no_colon[OF assms(2)]
    by (simp add: split_on_append split_on_absent)
qed

lemma split_ms:
  assumes "all_digits m" "all_digits s" "all_digits f"
  shows "split_on CHR '':'' (m @ CHR '':'' # s @ CHR ''.'' # f) = [m, s @ CHR ''.'' # f]"
proof -
  have "CHR '':'' \<notin> set (s @ CHR ''.'' # f)"
    using all_digits_no_colon[OF assms(2)] all_digits_no_colon[OF assms(3)] by simp
  then show ?thesis
    using all_digits_no_colon[OF assms(1)]
    by (simp add: split_on_append split_on_absent)
qed

lemma time_of_hms:
  assumes "all_digits h" "all_digits m" "all_digits s" "all_digits f"
  shows "time_str_to_seconds (h @ CHR '':'' # m @ CHR '':'' # s @ CHR ''.'' # f) =
           Inr (real (digits_val h) * 3600 + real (digits_val m) * 60
                + (real (digits_val s) + real (digits_val f) / 10 ^ length f))"
  unfolding time_str_to_seconds_def split_hms[OF assms]
  by (simp add: py_int_digits[OF assms(1)] py_int_digits[OF assms(2)] py_float_digits[OF assms(3,4)])

lemma time_of_ms:
  assumes "all_digits m" "all_digits s" "all_digits f"
  shows "time_str_to_seconds (m @ CHR '':'' # s @ CHR ''.'' # f) =
           Inr (real (digits_val m) * 60
                + (real (digits_val s) + real (digits_val f) / 10 ^ length f))"
  unfolding time_str_to_seconds_def split_ms[OF assms]
  by (simp add: py_int_digits[OF assms(1)] py_float_digits[OF assms(2,3)])

lemma take_digits_Some:
  assumes "take_digits s = Some (d, r)"
  shows "all_digits d \<and> s = d @ r"
proof -
  from assms have d: "d = takeWhile is_digit s" and r: "r = dropWhile is_digit s" and ne: "d \<noteq> []"
    by (simp_all add: take_digits_def Let_def split: if_splits)
  have "list_all is_digit d" unfolding d list_all_iff using set_takeWhileD by fast
  with ne show ?thesis by (simp add: all_digits_def d r)
qed

lemma expect_char_Some: "expect_char c s = Some r \<Longrightarrow> s = c # r"
  by (cases s) (simp_all add: expect_char_def split: if_splits)

lemma match_hms_Some:
  assumes "match_hms s = Some g"
  shows "\<exists>h m sec f. all_digits h \<and> all_digits m \<and> all_digits sec \<and> all_digits f \<and>
           g = h @ CHR '':'' # m @ CHR '':'' # sec @ CHR ''.'' # f \<and> prefix g s"
proof -
  from assms obtain h r1 where 1: "take_digits s = Some (h, r1)"
    by (auto simp: match_hms_def split: option.splits)
  from assms 1 obtain r2 where 2: "expect_char CHR '':'' r1 = Some r2"
    by (auto simp: match_hms_def split: option.splits)
  from assms 1 2 obtain m r3 where 3: "take_digits r2 = Some (m, r3)"
    by (auto simp: match_hms_def split: option.splits)
  from assms 1 2 3 obtain r4 where 4: "expect_char CHR '':'' r3 = Some r4"
    by (auto simp: match_hms_def split: option.splits)
  from assms 1 2 3 4 obtain sec r5 where 5: "take_digits r4 = Some (sec, r5)"
    by (auto simp: match_hms_def split: option.splits)
  from assms 1 2 3 4 5 obtain r6 where 6: "expect_char CHR ''.'' r5 = Some r6"
    by (auto simp: match_hms_def split: option.splits)
  from assms 1 2 3 4 5 6 obtain f r7 where 7: "take_digits r6 = Some (f, r7)"
    by (auto simp: match_hms_def split: option.splits)
  from assms 1 2 3 4 5 6 7 have g: "g = h @ CHR '':'' # m @ CHR '':'' # sec @ CHR ''.'' # f"
    by (simp add: match_hms_def)
  have "s = h @ CHR '':'' # m @ CHR '':'' # sec @ CHR ''.'' # f @ r7"
    using take_digits_Some[OF 1] expect_char_Some[OF 2] take_digits_Some[OF 3]
      expect_char_Some[OF 4] take_digits_Some[OF 5] expect_char_Some[OF 6] take_digits_Some[OF 7]
    by simp
  then have "s = g @ r7" by (simp add: g)
  then have "prefix g s" by (simp add: prefix_def)
  with g take_digits_Some[OF 1] take_digits_Some[OF 3] take_digits_Some[OF 5] take_digits_Some[OF 7]
  show ?thesis by blast
qed

lemma re_search_Some:
  "re_search lit s = Some g \<Longrightarrow>
     \<exists>h m sec f. all_digits h \<and> all_digits m \<and> all_digits sec \<and> all_digits f \<and>
           g = h @ CHR '':'' # m @ CHR '':'' # sec @ CHR ''.'' # f \<and> set g \<subseteq> set s"
proof (induction s)
  case Nil
  then show ?case by simp
next
  case (Cons c cs)
  show ?case
  proof (cases "prefix lit (c # cs) \<and> match_hms (drop (length lit) (c # cs)) \<noteq> None")
    case True
    then obtain g' where g': "match_hms (drop (length lit) (c # cs)) = Some g'" by blast
    with True Cons.prems have gg: "g' = g" by simp
    from match_hms_Some[OF g'] obtain h m sec f where
      *: "all_digits h" "all_digits m" "all_digits sec" "all_digits f"
         "g' = h @ CHR '':'' # m @ CHR '':'' # sec @ CHR ''.'' # f"
         "prefix g' (drop (length lit) (c # cs))" by blast
    have "set g' \<subseteq> set (drop (length lit) (c # cs))" using *(6) by (rule set_mono_prefix)
    also have "\<dots> \<subseteq> set (c # cs)" by (rule set_drop_subset)
    finally have "set g \<subseteq> set (c # cs)" unfolding gg .
    with *(1-5) gg show ?thesis by blast
  next
    case False
    then have "re_search lit (c # cs) = re_search lit cs"
      by (cases "match_hms (drop (length lit) (c # cs))") simp_all
    with Cons.prems have "re_search lit cs = Some g" by simp
    from Cons.IH[OF this] obtain h m sec f where
      *: "all_digits h" "all_digits m" "all_digits sec" "all_digits f"
         "g = h @ CHR '':'' # m @ CHR '':'' # sec @ CHR ''.'' # f" "set g \<subseteq> set cs" by blast
    from *(6) have "set g \<subseteq> set (c # cs)" by (simp add: subset_insertI2)
    with *(1-5) show ?thesis by blast
  qed
qed

lemma re_search_time:
  assumes "re_search lit s = Some g"
  shows "\<exists>t. time_str_to_seconds g = Inr t \<and> 0 \<le> t"
proof -
  from re_search_Some[OF assms] obtain h m sec f where
    *: "all_digits h" "all_digits m" "all_digits sec" "all_digits f"
       "g = h @ CHR '':'' # m @ CHR '':'' # sec @ CHR ''.'' # f" by blast
  show ?thesis unfolding *(5) time_of_hms[OF *(1-4)] by simp
qed

lemma digit_not_space: "is_digit c \<Longrightarrow> \<not> is_space c"
  by (simp add: is_digit_def is_space_def Let_def)

lemma dropWhile_keeps: "c \<in> set s \<Longrightarrow> \<not> P c \<Longrightarrow> c \<in> set (dropWhile P s)"
  by (induction s) auto

lemma py_strip_nonblank:
  assumes "c \<in> set s" "\<not> is_space c"
  shows "py_strip s \<noteq> []"
proof -
  have "c \<in> set (dropWhile is_space s)" using assms by (rule dropWhile_keeps)
  then have "c \<in> set (rev (dropWhile is_space s))" by simp
  then have "c \<in> set (dropWhile is_space (rev (dropWhile is_space s)))"
    using assms(2) by (rule dropWhile_keeps)
  then have "dropWhile is_space (rev (dropWhile is_space s)) \<noteq> []" by (cases "dropWhile is_space (rev (dropWhile is_space s))") simp_all
  then show ?thesis unfolding py_strip_def by simp
qed

lemma re_search_nonblank:
  assumes "re_search lit s = Some g"
  shows "py_strip s \<noteq> []"
proof -
  from re_search_Some[OF assms] obtain h m sec f where
    *: "all_digits h" "g = h @ CHR '':'' # m @ CHR '':'' # sec @ CHR ''.'' # f" "set g \<subseteq> set s"
    by blast
  from *(1) have "h \<noteq> []" "\<forall>x\<in>set h. is_digit x" by (simp_all add: all_digits_def list_all_iff)
  then have "hd h \<in> set h" "is_digit (hd h)" by simp_all
  then obtain c where c: "c \<in> set h" "is_digit c" by blast
  from c(1) *(2) have "c \<in> set g" by simp
  with *(3) have "c \<in> set s" by blast
  then show ?thesis using digit_not_space[OF c(2)] by (rule py_strip_nonblank)
qed

lemma deliver_eq:
  "deliver c st =
     st\<lparr>events := events st @ chunk_events (total_duration st) (basename (input_path st)) c\<rparr>"
proof (cases c)
  case (Stdout s)
  show ?thesis
  proof (cases "re_search ''time='' s")
    case None
    then show ?thesis by (simp add: Stdout read_stdout_def chunk_events_def)
  next
    case (Some g)
    from re_search_nonblank[OF Some] re_search_time[OF Some] Some show ?thesis
      by (auto simp: Stdout read_stdout_def chunk_events_def emit_def)
  qed
next
  case (Stderr s)
  then show ?thesis by (simp add: read_stderr_def chunk_events_def emit_def)
qed

lemma fold_deliver_eq:
  "fold deliver cs st =
     st\<lparr>events := events st
          @ concat (map (chunk_events (total_duration st) (basename (input_path st))) cs)\<rparr>"
proof (induction cs arbitrary: st)
  case Nil
  show ?case by simp
next
  case (Cons c cs)
  have "fold deliver (c # cs) st = fold deliver cs (deliver c st)" by simp
  also have "\<dots> = (deliver c st)\<lparr>events := events (deliver c st)
       @ concat (map (chunk_events (total_duration (deliver c st))
                        (basename (input_path (deliver c st)))) cs)\<rparr>"
    by (rule Cons.IH)
  also have "\<dots> = st\<lparr>events := events st
       @ concat (map (chunk_events (total_duration st) (basename (input_path st))) (c # cs))\<rparr>"
    unfolding deliver_eq[of c st] by simp
  finally show ?case .
qed

lemma run_ffmpeg_eq:
  "run_ffmpeg cmd res st =
     st\<lparr>launched := launched st @ [cmd],
        events := events st
          @ concat (map (chunk_events (total_duration st) (basename (input_path st))) (chunks res)),
        files := (if creates_output res then insert (last cmd) (files st) else files st),
        is_cancelled := is_cancelled st \<or> cancel_during res,
        process_exit := Some (exit_code res)\<rparr>"
  by (simp add: run_ffmpeg_def fold_deliver_eq cancel_def Let_def)

lemma probe_duration_eq:
  "total_duration st = 0 \<Longrightarrow> probe_duration env st = Inr (st\<lparr>total_duration := probed_duration env\<rparr>)"
proof (cases "re_search ''Duration: '' (probe_stderr env)")
  case None
  assume "total_duration st = 0"
  with None show ?thesis by (simp add: probe_duration_def probed_duration_def)
next
  case (Some g)
  from re_search_time[OF Some] Some show ?thesis
    by (auto simp: probe_duration_def probed_duration_def)
qed

lemma probed_duration_nonneg: "0 \<le> probed_duration env"
proof (cases "re_search ''Duration: '' (probe_stderr env)")
  case None
  then show ?thesis by (simp add: probed_duration_def)
next
  case (Some g)
  from re_search_time[OF Some] Some show ?thesis
    by (auto simp: probed_duration_def)
qed

lemmas run_unfold =
  run_def run_body_def init_worker_def emit_def cancel_def os_remove_def
  run_merge_def run_audio_extract_def run_direct_convert_def run_ffmpeg_eq Let_def

lemma run_missing:
  assumes "inp \<notin> fs"
  shows "run env (init_worker inp odir nz ff fs) =
     (init_worker inp odir nz ff fs)
       \<lparr>start_time := clock_start env, events := [Error (InputMissing inp)]\<rparr>"
  using assms by (simp add: run_def run_body_def init_worker_def emit_def)

lemma run_makedirs_fails:
  assumes "inp \<in> fs" "\<not> makedirs_ok env"
  shows "run env (init_worker inp odir nz ff fs) =
     (init_worker inp odir nz ff fs)
       \<lparr>start_time := clock_start env, events := [Error (ThreadException OSError)]\<rparr>"
  using assms by (simp add: run_def run_body_def init_worker_def emit_def)

lemma probe_init:
  "probe_duration env
     \<lparr>input_path = inp, output_dir = odir, use_loudnorm = nz, ffmpeg_path = ff,
      total_duration = 0, is_cancelled = False, start_time = t, process_exit = None,
      events = [], launched = [], files = F\<rparr> =
   Inr \<lparr>input_path = inp, output_dir = odir, use_loudnorm = nz, ffmpeg_path = ff,
      total_duration = probed_duration env, is_cancelled = False, start_time = t,
      process_exit = None, events = [], launched = [], files = F\<rparr>"
  by (simp add: probe_duration_eq)

lemma run_direct:
  assumes "inp \<in> fs" "makedirs_ok env" "audio_file_of inp \<notin> insert odir fs"
  shows "run env (init_worker inp odir nz ff fs) =
     \<lparr>input_path = inp, output_dir = odir, use_loudnorm = nz, ffmpeg_path = ff,
      total_duration = probed_duration env,
      is_cancelled = (cancel_early env \<or> cancel_during (encode_result env)),
      start_time = clock_start env,
      process_exit = Some (exit_code (encode_result env)),
      events = job_events env inp (encode_result env)
        @ (if cancel_early env \<or> cancel_during (encode_result env) then []
           else if exit_code (encode_result env) = 0
           then [Finished (output_path_of inp odir) (clock_end env - clock_start env)]
           else [Error DirectFailed]),
      launched = [direct_convert_cmd (init_worker inp odir nz ff fs) inp (output_path_of inp odir)],
      files = (if creates_output (encode_result env)
               then insert (output_path_of inp odir) (insert odir fs) else insert odir fs)\<rparr>"
  using assms
  by (simp add: run_unfold probe_init job_events_def direct_convert_cmd_def)

lemma run_merge_cancelled:
  assumes "inp \<in> fs" "makedirs_ok env" "audio_file_of inp \<in> insert odir fs"
    and "cancel_early env \<or> cancel_during (merge_result env)"
  shows "run env (init_worker inp odir nz ff fs) =
     \<lparr>input_path = inp, output_dir = odir, use_loudnorm = nz, ffmpeg_path = ff,
      total_duration = probed_duration env,
      is_cancelled = True,
      start_time = clock_start env,
      process_exit = Some (exit_code (merge_result env)),
      events = job_events env inp (merge_result env),
      launched = [merge_cmd (init_worker inp odir nz ff fs) [inp, audio_file_of inp]
                    (merged_ts_of inp)],
      files = files_after_merge env inp odir fs\<rparr>"
proof (cases "cancel_early env")
  case True
  with assms(1-3) show ?thesis
    by (simp add: run_unfold probe_init job_events_def merge_cmd_def files_after_merge_def
          del: insert_iff)
next
  case False
  with assms have "cancel_during (merge_result env)" by simp
  with False assms(1-3) show ?thesis
    by (simp add: run_unfold probe_init job_events_def merge_cmd_def files_after_merge_def
          del: insert_iff)
qed

lemma run_merge_extract:
  assumes "inp \<in> fs" "makedirs_ok env" "audio_file_of inp \<in> insert odir fs"
    and "\<not> cancel_early env" "\<not> cancel_during (merge_result env)"
  shows "run env (init_worker inp odir nz ff fs) =
     \<lparr>input_path = inp, output_dir = odir, use_loudnorm = nz, ffmpeg_path = ff,
      total_duration = probed_duration env,
      is_cancelled = cancel_during (encode_result env),
      start_time = clock_start env,
      process_exit = Some (exit_code (encode_result env)),
      events = job_events env inp (merge_result env) @ job_events env inp (encode_result env)
        @ (if cancel_during (encode_result env) then []
           else if exit_code (encode_result env) = 0
           then [Finished (output_path_of inp odir) (clock_end env - clock_start env)]
           else [Error ExtractFailed])
        @ (if (cancel_during (encode_result env) \<or> exit_code (encode_result env) = 0)
              \<and> merged_ts_of inp \<notin> files_after_extract env inp odir fs
           then [Error (ThreadException FileNotFoundError)] else []),
      launched = [merge_cmd (init_worker inp odir nz ff fs) [inp, audio_file_of inp]
                    (merged_ts_of inp),
                  audio_extract_cmd (init_worker inp odir nz ff fs) (merged_ts_of inp)
                    (output_path_of inp odir)],
      files = (if cancel_during (encode_result env) \<or> exit_code (encode_result env) = 0
               then files_after_extract env inp odir fs - {merged_ts_of inp}
               else files_after_extract env inp odir fs)\<rparr>"
proof (cases "cancel_during (encode_result env)")
  case True
  with assms show ?thesis
    by (simp add: run_unfold probe_init job_events_def merge_cmd_def audio_extract_cmd_def
          files_after_merge_def files_after_extract_def del: insert_iff)
next
  case False
  show ?thesis
  proof (cases "exit_code (encode_result env) = 0")
    case True
    with False assms show ?thesis
      by (simp add: run_unfold probe_init job_events_def merge_cmd_def audio_extract_cmd_def
            files_after_merge_def files_after_extract_def del: insert_iff)
  next
    case nz: False
    with False assms show ?thesis
      by (simp add: run_unfold probe_init job_events_def merge_cmd_def audio_extract_cmd_def
            files_after_merge_def files_after_extract_def del: insert_iff)
  qed
qed

lemma progress_chunk_events:
  "filter is_progress (chunk_events d name c) =
     (if d > 0 then map (\<lambda>t. Progress (t / d) name) (reported_times c) else [])"
  by (simp add: chunk_events_def filter_map o_def)

lemma other_chunk_events:
  "filter (\<lambda>e. \<not> is_progress e) (chunk_events d name c) =
     map (\<lambda>s. Error (FFmpegOutput s)) (stderr_texts c)"
  by (simp add: chunk_events_def filter_map o_def)

lemma progress_concat:
  "filter is_progress (concat (map (chunk_events d name) cs)) =
     (if d > 0 then map (\<lambda>t. Progress (t / d) name) (concat (map reported_times cs)) else [])"
  by (induction cs) (simp_all add: progress_chunk_events)

lemma other_concat:
  "filter (\<lambda>e. \<not> is_progress e) (concat (map (chunk_events d name) cs)) =
     map (\<lambda>s. Error (FFmpegOutput s)) (concat (map stderr_texts cs))"
  by (induction cs) (simp_all add: other_chunk_events)

lemma progress_job_events:
  "filter is_progress (job_events env inp res) =
     (if probed_duration env > 0
      then map (\<lambda>t. Progress (t / probed_duration env) (basename inp))
             (concat (map reported_times (chunks res)))
      else [])"
  unfolding job_events_def by (rule progress_concat)

lemma other_job_events:
  "filter (\<lambda>e. \<not> is_progress e) (job_events env inp res) =
     map (\<lambda>s. Error (FFmpegOutput s)) (concat (map stderr_texts (chunks res)))"
  unfolding job_events_def by (rule other_concat)

lemma run_progress:
  "filter is_progress (events (run env (init_worker inp odir nz ff fs))) =
     (if probed_duration env > 0
      then map (\<lambda>t. Progress (t / probed_duration env) (basename inp)) (job_times env inp odir fs)
      else [])"
proof -
  consider (missing) "inp \<notin> fs"
    | (nodir) "inp \<in> fs" "\<not> makedirs_ok env"
    | (direct) "inp \<in> fs" "makedirs_ok env" "\<not> merge_path inp odir fs"
    | (stopped) "inp \<in> fs" "makedirs_ok env" "merge_path inp odir fs" "merge_cancelled env"
    | (both) "inp \<in> fs" "makedirs_ok env" "merge_path inp odir fs" "\<not> merge_cancelled env"
    by blast
  then show ?thesis
  proof cases
    case missing
    then show ?thesis
      by (simp add: run_missing job_times_def delivered_def)
  next
    case nodir
    then show ?thesis
      by (simp add: run_makedirs_fails job_times_def delivered_def)
  next
    case direct
    from direct(3) have a: "audio_file_of inp \<notin> insert odir fs" by (simp add: merge_path_def)
    show ?thesis
      unfolding run_direct[OF direct(1,2) a]
      using direct by (simp add: progress_job_events job_times_def delivered_def)
  next
    case stopped
    from stopped(3) have a: "audio_file_of inp \<in> insert odir fs" by (simp add: merge_path_def)
    from stopped(4) have c: "cancel_early env \<or> cancel_during (merge_result env)"
      by (simp add: merge_cancelled_def)
    show ?thesis
      unfolding run_merge_cancelled[OF stopped(1,2) a c]
      using stopped by (simp add: progress_job_events job_times_def delivered_def)
  next
    case both
    from both(3) have a: "audio_file_of inp \<in> insert odir fs" by (simp add: merge_path_def)
    from both(4) have c: "\<not> cancel_early env" "\<not> cancel_during (merge_result env)"
      by (simp_all add: merge_cancelled_def)
    show ?thesis
      unfolding run_merge_extract[OF both(1,2) a c]
      using both by (simp add: progress_job_events job_times_def delivered_def)
  qed
qed

lemma rfind_last:
  assumes "c \<notin> set b"
  shows "rfind c (a @ c # b) = int (length a)"
proof -
  have "takeWhile (\<lambda>x. x \<noteq> c) (rev (a @ c # b)) = rev b"
    using assms by (simp add: takeWhile_append)
  then show ?thesis by (simp add: rfind_def)
qed

lemma rfind_absent: "c \<notin> set s \<Longrightarrow> rfind c s = - 1"
  by (simp add: rfind_def)

lemma basename_after_slash:
  assumes "CHR ''/'' \<notin> set name"
  shows "basename (dir @ CHR ''/'' # name) = name"
proof -
  have "nat (int (length dir) + 1) = Suc (length dir)" by simp
  then show ?thesis unfolding basename_def rfind_last[OF assms] by simp
qed

lemma basename_plain: "CHR ''/'' \<notin> set name \<Longrightarrow> basename name = name"
  by (simp add: basename_def rfind_absent)

lemma splitext_name:
  assumes "CHR ''/'' \<notin> set stem" "\<exists>c\<in>set stem. c \<noteq> CHR ''.''"
    and "CHR ''/'' \<notin> set ext" "CHR ''.'' \<notin> set ext"
  shows "splitext (stem @ CHR ''.'' # ext) = (stem, CHR ''.'' # ext)"
proof -
  have sep: "rfind CHR ''/'' (stem @ CHR ''.'' # ext) = - 1"
    using assms(1,3) by (simp add: rfind_absent)
  have dot: "rfind CHR ''.'' (stem @ CHR ''.'' # ext) = int (length stem)"
    using assms(4) by (rule rfind_last)
  have "list_ex (\<lambda>c. c \<noteq> CHR ''.'') stem" using assms(2) by (simp add: list_ex_iff)
  then show ?thesis unfolding splitext_def sep dot by simp
qed

lemma splitext_no_dot:
  assumes "CHR ''.'' \<notin> set name"
  shows "splitext name = (name, [])"
proof -
  have "rfind CHR ''.'' name = - 1" using assms by (rule rfind_absent)
  moreover have "- 1 \<le> rfind CHR ''/'' name"
  proof -
    have "length (takeWhile (\<lambda>x. x \<noteq> CHR ''/'') (rev name)) \<le> length (rev name)"
      by (rule length_takeWhile_le)
    then show ?thesis by (simp add: rfind_def)
  qed
  ultimately show ?thesis by (simp add: splitext_def Let_def)
qed

lemma path_join_file:
  assumes "odir \<noteq> []" "name \<noteq> []" "CHR ''/'' \<notin> set name"
  shows "path_join odir (name @ suf) = (if last odir = CHR ''/'' then odir else odir @ ''/'') @ name @ suf"
proof -
  from assms(2,3) have "\<not> prefix ''/'' (name @ suf)" by (cases name) auto
  moreover have "suffix ''/'' odir \<longleftrightarrow> last odir = CHR ''/''"
    using assms(1) by (metis append_butlast_last_id last_snoc suffix_def suffixI)
  ultimately show ?thesis using assms(1) by (simp add: path_join_def)
qed

lemma output_path_with_ext:
  assumes "CHR ''/'' \<notin> set stem" "\<exists>c\<in>set stem. c \<noteq> CHR ''.''"
    and "CHR ''/'' \<notin> set ext" "CHR ''.'' \<notin> set ext" "odir \<noteq> []"
  shows "output_path_of (dir @ CHR ''/'' # stem @ CHR ''.'' # ext) odir =
           (if last odir = CHR ''/'' then odir else odir @ ''/'') @ stem @ ''.mp3''"
    and "output_path_of (stem @ CHR ''.'' # ext) odir =
           (if last odir = CHR ''/'' then odir else odir @ ''/'') @ stem @ ''.mp3''"
proof -
  have n: "CHR ''/'' \<notin> set (stem @ CHR ''.'' # ext)" using assms(1,3) by simp
  have ne: "stem \<noteq> []" using assms(2) by auto
  show "output_path_of (dir @ CHR ''/'' # stem @ CHR ''.'' # ext) odir =
           (if last odir = CHR ''/'' then odir else odir @ ''/'') @ stem @ ''.mp3''"
    unfolding output_path_of_def Let_def basename_after_slash[OF n] splitext_name[OF assms(1-4)]
    using path_join_file[OF assms(5) ne assms(1)] by simp
  show "output_path_of (stem @ CHR ''.'' # ext) odir =
           (if last odir = CHR ''/'' then odir else odir @ ''/'') @ stem @ ''.mp3''"
    unfolding output_path_of_def Let_def basename_plain[OF n] splitext_name[OF assms(1-4)]
    using path_join_file[OF assms(5) ne assms(1)] by simp
qed

lemma output_path_without_ext:
  assumes "CHR ''/'' \<notin> set name" "CHR ''.'' \<notin> set name" "name \<noteq> []" "odir \<noteq> []"
  shows "output_path_of (dir @ CHR ''/'' # name) odir =
           (if last odir = CHR ''/'' then odir else odir @ ''/'') @ name @ ''.mp3''"
  unfolding output_path_of_def Let_def basename_after_slash[OF assms(1)] splitext_no_dot[OF assms(2)]
  using path_join_file[OF assms(4) assms(3) assms(1)] by simp

lemma job_events_append:
  "concat (map (chunk_events d n) (xs @ ys)) =
     concat (map (chunk_events d n) xs) @ concat (map (chunk_events d n) ys)"
  by simp

lemma run_paths:
  obtains
    (missing) "inp \<notin> fs"
  | (nodir) "inp \<in> fs" "\<not> makedirs_ok env"
  | (direct) "inp \<in> fs" "makedirs_ok env" "\<not> merge_path inp odir fs"
      "audio_file_of inp \<notin> insert odir fs"
  | (stopped) "inp \<in> fs" "makedirs_ok env" "merge_path inp odir fs" "merge_cancelled env"
      "audio_file_of inp \<in> insert odir fs"
      "cancel_early env \<or> cancel_during (merge_result env)"
  | (both) "inp \<in> fs" "makedirs_ok env" "merge_path inp odir fs" "\<not> merge_cancelled env"
      "audio_file_of inp \<in> insert odir fs"
      "\<not> cancel_early env" "\<not> cancel_during (merge_result env)"
  unfolding merge_path_def merge_cancelled_def by blast

lemma run_events:
  "events (run env (init_worker inp odir nz ff fs)) =
     concat (map (chunk_events (probed_duration env) (basename inp)) (delivered env inp odir fs))
     @ final_events env inp odir fs"
proof (cases rule: run_paths[where inp = inp and fs = fs and env = env and odir = odir])
  case missing
  then show ?thesis by (simp add: run_missing delivered_def final_events_def)
next
  case nodir
  then show ?thesis by (simp add: run_makedirs_fails delivered_def final_events_def)
next
  case direct
  show ?thesis unfolding run_direct[OF direct(1,2,4)]
    using direct(1,2,3)
    by (simp add: delivered_def final_events_def job_events_def encode_outcome_def)
next
  case stopped
  show ?thesis unfolding run_merge_cancelled[OF stopped(1,2,5,6)]
    using stopped(1-4)
    by (simp add: delivered_def final_events_def job_events_def)
next
  case both
  show ?thesis unfolding run_merge_extract[OF both(1,2,5,6,7)]
    using both(1-4)
    by (simp add: delivered_def final_events_def job_events_def encode_outcome_def
          removal_raises_def)
qed

lemma run_launched:
  "launched (run env (init_worker inp odir nz ff fs)) =
     (if inp \<notin> fs \<or> \<not> makedirs_ok env then []
      else if merge_path inp odir fs then
        merge_line ff inp
        # (if merge_cancelled env then []
           else [encode_line ff nz (merged_ts_of inp) (output_path_of inp odir)])
      else [encode_line ff nz inp (output_path_of inp odir)])"
proof (cases rule: run_paths[where inp = inp and fs = fs and env = env and odir = odir])
  case missing
  show ?thesis unfolding run_missing[OF missing] using missing by (simp add: init_worker_def)
next
  case nodir
  show ?thesis unfolding run_makedirs_fails[OF nodir] using nodir by (simp add: init_worker_def)
next
  case direct
  show ?thesis unfolding run_direct[OF direct(1,2,4)]
    using direct(1,2,3)
    by (simp add: direct_convert_cmd_def encode_line_def init_worker_def)
next
  case stopped
  show ?thesis unfolding run_merge_cancelled[OF stopped(1,2,5,6)]
    using stopped(1-4)
    by (simp add: merge_cmd_def merge_line_def init_worker_def)
next
  case both
  show ?thesis unfolding run_merge_extract[OF both(1,2,5,6,7)]
    using both(1-4)
    by (simp add: merge_cmd_def merge_line_def audio_extract_cmd_def encode_line_def
          init_worker_def)
qed

lemma run_files:
  "files (run env (init_worker inp odir nz ff fs)) = final_files env inp odir fs"
proof (cases rule: run_paths[where inp = inp and fs = fs and env = env and odir = odir])
  case missing
  show ?thesis unfolding run_missing[OF missing]
    using missing by (simp add: init_worker_def final_files_def)
next
  case nodir
  show ?thesis unfolding run_makedirs_fails[OF nodir]
    using nodir by (simp add: init_worker_def final_files_def)
next
  case direct
  show ?thesis unfolding run_direct[OF direct(1,2,4)]
    using direct(1,2,3) by (simp add: final_files_def)
next
  case stopped
  show ?thesis unfolding run_merge_cancelled[OF stopped(1,2,5,6)]
    using stopped(1-4) by (simp add: final_files_def)
next
  case both
  show ?thesis unfolding run_merge_extract[OF both(1,2,5,6,7)]
    using both(1-4) by (simp add: final_files_def)
qed

lemma run_flags:
  "is_cancelled (run env (init_worker inp odir nz ff fs)) =
     (inp \<in> fs \<and> makedirs_ok env \<and>
      (if merge_path inp odir fs then merge_cancelled env \<or> cancel_during (encode_result env)
       else cancel_early env \<or> cancel_during (encode_result env)))
   \<and> process_exit (run env (init_worker inp odir nz ff fs)) =
     (if inp \<notin> fs \<or> \<not> makedirs_ok env then None
      else if merge_path inp odir fs \<and> merge_cancelled env
      then Some (exit_code (merge_result env))
      else Some (exit_code (encode_result env)))
   \<and> total_duration (run env (init_worker inp odir nz ff fs)) =
     (if inp \<notin> fs \<or> \<not> makedirs_ok env then 0 else probed_duration env)"
proof (cases rule: run_paths[where inp = inp and fs = fs and env = env and odir = odir])
  case missing
  show ?thesis unfolding run_missing[OF missing]
    using missing by (simp add: init_worker_def)
next
  case nodir
  show ?thesis unfolding run_makedirs_fails[OF nodir]
    using nodir by (simp add: init_worker_def)
next
  case direct
  show ?thesis unfolding run_direct[OF direct(1,2,4)]
    using direct(1,2,3) by simp
next
  case stopped
  show ?thesis unfolding run_merge_cancelled[OF stopped(1,2,5,6)]
    using stopped(1-4) by simp
next
  case both
  show ?thesis unfolding run_merge_extract[OF both(1,2,5,6,7)]
    using both(1-4) by simp
qed

lemmas run_cancelled = run_flags[THEN conjunct1]

lemmas run_exit = run_flags[THEN conjunct2, THEN conjunct1]

lemmas run_total = run_flags[THEN conjunct2, THEN conjunct2]

lemma demo_paths:
  "audio_file_of ''/v/a.m4s'' = ''/v/a.m4a''"
  "merged_ts_of ''/v/a.m4s'' = ''/v/a_merged.ts''"
  "output_path_of ''/v/a.m4s'' ''/out'' = ''/out/a.mp3''"
  "basename ''/v/a.m4s'' = ''a.m4s''"
  "audio_file_of ''/v/clip one.mp4'' = ''/v/clip one.m4a''"
  "output_path_of ''/v/clip one.mp4'' ''/out'' = ''/out/clip one.mp3''"
  "basename ''/v/clip one.mp4'' = ''clip one.mp4''"
  by (simp_all add: audio_file_of_def merged_ts_of_def output_path_of_def basename_def
        splitext_def rfind_def path_join_def Let_def suffix_to_prefix)

lemma demo_merge_path:
  "''/v/a.m4s'' \<in> merge_fs"
  "merge_path ''/v/a.m4s'' ''/out'' merge_fs"
  "\<not> merge_path ''/v/clip one.mp4'' ''/out'' {''/v/clip one.mp4''}"
  by (simp_all add: merge_path_def demo_paths merge_fs_def)

lemmas eval_time =
  match_hms_def take_digits_def expect_char_def is_digit_def time_str_to_seconds_def
  py_int_def py_float_def digits_val_def digit_val_def Let_def

lemma probe_irrelevant:
  "delivered (env\<lparr>probe_stderr := p\<rparr>) inp odir fs = delivered env inp odir fs"
  "final_events (env\<lparr>probe_stderr := p\<rparr>) inp odir fs = final_events env inp odir fs"
  "final_files (env\<lparr>probe_stderr := p\<rparr>) inp odir fs = final_files env inp odir fs"
  "merge_cancelled (env\<lparr>probe_stderr := p\<rparr>) = merge_cancelled env"
  by (simp_all add: delivered_def final_events_def final_files_def merge_cancelled_def
        encode_outcome_def removal_raises_def files_after_extract_def files_after_merge_def)

lemma run_other_events:
  "filter (\<lambda>e. \<not> is_progress e) (events (run env (init_worker inp odir nz ff fs))) =
     map (\<lambda>s. Error (FFmpegOutput s)) (job_stderr env inp odir fs)
     @ filter (\<lambda>e. \<not> is_progress e) (final_events env inp odir fs)"
  unfolding run_events by (simp add: other_concat job_stderr_def)

lemma demo_probe: "probed_duration demo_env = 10"
  by (simp add: probed_duration_def demo_env_def eval_time)

lemma demo_flags:
  "makedirs_ok demo_env" "\<not> merge_cancelled demo_env" "\<not> cancel_early demo_env"
  "\<not> cancel_during (encode_result demo_env)" "exit_code (encode_result demo_env) = 0"
  by (simp_all add: demo_env_def merge_cancelled_def ok_proc_def)

lemma demo_reported:
  "concat (map reported_times (chunks (merge_result demo_env))) = [9]"
  "concat (map reported_times (chunks (encode_result demo_env))) = [5, 20]"
  by (simp_all add: demo_env_def ok_proc_def eval_time)

lemma demo_times: "job_times demo_env ''/v/a.m4s'' ''/out'' merge_fs = [9, 5, 20]"
  unfolding job_times_def delivered_def
  using demo_reported by (simp add: demo_merge_path demo_flags del: reported_times.simps)

lemma reported_times_nonneg: "t \<in> set (reported_times c) \<Longrightarrow> 0 \<le> t"
proof (cases c)
  case (Stdout s)
  assume t: "t \<in> set (reported_times c)"
  show ?thesis
  proof (cases "re_search ''time='' s")
    case None
    with t Stdout show ?thesis by simp
  next
    case (Some g)
    from re_search_time[OF Some] obtain u where "time_str_to_seconds g = Inr u" "0 \<le> u" by blast
    with t Stdout Some show ?thesis by simp
  qed
next
  case (Stderr s)
  assume "t \<in> set (reported_times c)"
  with Stderr show ?thesis by simp
qed

lemma job_times_nonneg: "t \<in> set (job_times env inp odir fs) \<Longrightarrow> 0 \<le> t"
  unfolding job_times_def using reported_times_nonneg by auto

lemma sorted_scaled:
  fixes d :: real
  assumes "0 < d"
  shows "sorted (map (\<lambda>t. t / d) ts) = sorted ts"
  using assms by (induction ts) (simp_all add: divide_le_cancel)

lemma run_fractions:
  "progress_fractions (events (run env (init_worker inp odir nz ff fs))) =
     (if 0 < probed_duration env
      then map (\<lambda>t. t / probed_duration env) (job_times env inp odir fs) else [])"
  unfolding progress_fractions_def run_progress by (simp add: o_def)

lemma failure_chunk_events: "filter is_failure (chunk_events d n c) = []"
  by (simp add: chunk_events_def filter_map o_def)

lemma failure_concat: "filter is_failure (concat (map (chunk_events d n) cs)) = []"
  by (induction cs) (simp_all add: failure_chunk_events)

lemma forwarded_chunk_events:
  "filter is_forwarded (chunk_events d n c) = map (\<lambda>s. Error (FFmpegOutput s)) (stderr_texts c)"
  by (simp add: chunk_events_def filter_map o_def)

lemma forwarded_concat:
  "filter is_forwarded (concat (map (chunk_events d n) cs)) =
     map (\<lambda>s. Error (FFmpegOutput s)) (concat (map stderr_texts cs))"
  by (induction cs) (simp_all add: forwarded_chunk_events)

lemma forwarded_final: "filter is_forwarded (final_events env inp odir fs) = []"
  by (simp add: final_events_def encode_outcome_def)

lemma failure_final:
  assumes "\<not> merge_fails env inp odir fs"
  shows "(filter is_failure (final_events env inp odir fs) \<noteq> []) = step_fails env inp odir fs"
  using assms by (simp add: final_events_def encode_outcome_def step_fails_def)

lemma finished_final:
  assumes "\<not> is_cancelled (run env (init_worker inp odir nz ff fs))"
    and "process_exit (run env (init_worker inp odir nz ff fs)) = Some 0"
  shows "Finished (output_path_of inp odir) (clock_end env - clock_start env)
           \<in> set (final_events env inp odir fs)"
proof -
  from assms(2) have a: "inp \<in> fs" "makedirs_ok env"
    unfolding run_exit by (simp_all split: if_splits)
  show ?thesis
  proof (cases "merge_path inp odir fs")
    case True
    with assms(1) a have c: "\<not> merge_cancelled env" "\<not> cancel_during (encode_result env)"
      unfolding run_cancelled by simp_all
    with assms(2) a True have "exit_code (encode_result env) = 0"
      unfolding run_exit by simp
    with a True c show ?thesis by (simp add: final_events_def encode_outcome_def)
  next
    case False
    with assms(1) a have c: "\<not> cancel_early env" "\<not> cancel_during (encode_result env)"
      unfolding run_cancelled by simp_all
    from assms(2) a False have "exit_code (encode_result env) = 0"
      unfolding run_exit by simp
    with a False c show ?thesis by (simp add: final_events_def encode_outcome_def)
  qed
qed

lemma direct_paths:
  "''/v/clip one.mp4'' \<in> direct_fs"
  "\<not> merge_path ''/v/clip one.mp4'' ''/out'' direct_fs"
  by (simp_all add: direct_fs_def merge_path_def demo_paths)

lemma cancelled_merge_events:
  "events (run cancel_env (init_worker ''/v/a.m4s'' ''/out'' False ''ffmpeg'' merge_fs))
     = [Progress (3 / 10) ''a.m4s'']"
proof -
  have c: "merge_cancelled cancel_env" "makedirs_ok cancel_env"
    "chunks (merge_result cancel_env) = [Stdout ''time=00:00:03.00'']"
    by (simp_all add: merge_cancelled_def cancel_env_def demo_env_def)
  have d: "delivered cancel_env ''/v/a.m4s'' ''/out'' merge_fs = [Stdout ''time=00:00:03.00'']"
    by (simp add: delivered_def demo_merge_path c)
  have p: "probed_duration cancel_env = 10"
    by (simp add: probed_duration_def cancel_env_def demo_env_def eval_time)
  have t: "reported_times (Stdout ''time=00:00:03.00'') = [3]"
    by (simp add: eval_time)
  show ?thesis
    unfolding run_events d
    by (simp add: p t chunk_events_def final_events_def demo_merge_path c demo_paths
          del: reported_times.simps)
qed

section \<open>The claims\<close>

subsection \<open>C1: Finished and Error events\<close>

text \<open>
  C1, as stated: an Error is emitted exactly when a step fails (a missing input, a non-zero
  subprocess exit, an exception). In the first run the input exists, the encode exits with
  0, nothing is cancelled and nothing raises, and the line the encoder wrote to its
  standard error is emitted as an Error, before Finished. In the second run the merge
  subprocess is killed by a cancellation and exits with 255, and no Error is emitted.
\<close>

theorem successful_job_emits_error:
  "\<not> step_fails demo_env ''/v/clip one.mp4'' ''/out'' direct_fs
   \<and> events (run demo_env (init_worker ''/v/clip one.mp4'' ''/out'' False ''ffmpeg'' direct_fs))
     = [Progress (1 / 2) ''clip one.mp4'', Error (FFmpegOutput ''size=10kB''),
        Progress 2 ''clip one.mp4'', Finished ''/out/clip one.mp3'' 4]
   \<and> exit_code (merge_result cancel_env) = 255
   \<and> events (run cancel_env (init_worker ''/v/a.m4s'' ''/out'' False ''ffmpeg'' merge_fs))
     = [Progress (3 / 10) ''a.m4s'']"
proof -
  have a: "\<not> step_fails demo_env ''/v/clip one.mp4'' ''/out'' direct_fs"
    by (simp add: step_fails_def merge_fails_def direct_paths demo_flags)
  have d: "delivered demo_env ''/v/clip one.mp4'' ''/out'' direct_fs =
      [Stdout ''time=00:00:05.00'', Stderr '' size=10kB '', Stdout ''time=00:00:20.00'']"
    by (simp add: delivered_def direct_paths demo_flags) (simp add: demo_env_def ok_proc_def)
  have t: "reported_times (Stdout ''time=00:00:05.00'') = [5]"
    "reported_times (Stdout ''time=00:00:20.00'') = [20]"
    "reported_times (Stderr '' size=10kB '') = []"
    by (simp_all add: eval_time)
  have s: "py_strip '' size=10kB '' = ''size=10kB''"
    by (simp add: py_strip_def is_space_def)
  have f: "final_events demo_env ''/v/clip one.mp4'' ''/out'' direct_fs =
      [Finished ''/out/clip one.mp3'' 4]"
    by (simp add: final_events_def direct_paths demo_flags encode_outcome_def demo_paths)
       (simp add: demo_env_def)
  have e: "events (run demo_env (init_worker ''/v/clip one.mp4'' ''/out'' False ''ffmpeg'' direct_fs))
     = [Progress (1 / 2) ''clip one.mp4'', Error (FFmpegOutput ''size=10kB''),
        Progress 2 ''clip one.mp4'', Finished ''/out/clip one.mp3'' 4]"
    unfolding run_events d f
    by (simp add: chunk_events_def demo_probe t s demo_paths del: reported_times.simps)
  have x: "exit_code (merge_result cancel_env) = 255" by (simp add: cancel_env_def)
  from a e x cancelled_merge_events show ?thesis by simp
qed

text \<open>
  C1, amended. Every non-blank chunk that a subprocess writes to its standard error is
  emitted as an Error carrying that text, whether the job succeeds or not. For a job whose
  merge subprocess does not fail (it exits with 0, or the job is cancelled by the time it
  ends, or there is no merge): when the job is not cancelled and its last subprocess, the
  encode, exits with 0, Finished is emitted with the output path and the elapsed time; and
  an Error other than forwarded standard-error text is emitted exactly when a step fails,
  that is, the input is missing, the output directory cannot be made, the encode
  subprocess of a job that is not cancelled exits with a non-zero code, or removing the
  intermediate file raises. Nothing is said of a job whose merge subprocess exits with a
  non-zero code.
\<close>

theorem finished_and_failure_errors:
  "filter is_forwarded (events (run env (init_worker inp odir nz ff fs))) =
     map (\<lambda>s. Error (FFmpegOutput s)) (job_stderr env inp odir fs)
   \<and> (\<not> merge_fails env inp odir fs \<longrightarrow>
        (\<not> is_cancelled (run env (init_worker inp odir nz ff fs))
           \<and> process_exit (run env (init_worker inp odir nz ff fs)) = Some 0 \<longrightarrow>
             Finished (output_path_of inp odir) (clock_end env - clock_start env)
               \<in> set (events (run env (init_worker inp odir nz ff fs))))
        \<and> ((\<exists>e\<in>set (events (run env (init_worker inp odir nz ff fs))). is_failure e)
             \<longleftrightarrow> step_fails env inp odir fs))"
proof -
  have 1: "\<not> is_cancelled (run env (init_worker inp odir nz ff fs))
      \<and> process_exit (run env (init_worker inp odir nz ff fs)) = Some 0 \<longrightarrow>
        Finished (output_path_of inp odir) (clock_end env - clock_start env)
          \<in> set (events (run env (init_worker inp odir nz ff fs)))"
    using finished_final[of env inp odir nz ff fs] unfolding run_events by simp
  have f: "filter is_failure (events (run env (init_worker inp odir nz ff fs))) =
          filter is_failure (final_events env inp odir fs)"
    unfolding run_events by (simp add: failure_concat)
  have 2: "(\<exists>e\<in>set (events (run env (init_worker inp odir nz ff fs))). is_failure e)
        \<longleftrightarrow> step_fails env inp odir fs" if m: "\<not> merge_fails env inp odir fs"
  proof -
    from f have "(filter is_failure (events (run env (init_worker inp odir nz ff fs))) \<noteq> [])
          = step_fails env inp odir fs"
      by (simp add: failure_final[OF m])
    then show ?thesis by (simp add: filter_empty_conv)
  qed
  have 3: "filter is_forwarded (events (run env (init_worker inp odir nz ff fs))) =
        map (\<lambda>s. Error (FFmpegOutput s)) (job_stderr env inp odir fs)"
    unfolding run_events by (simp add: forwarded_concat forwarded_final job_stderr_def)
  from 1 2 3 show ?thesis by blast
qed

theorem finished_and_failure_errors_witness:
  "\<not> merge_fails demo_env ''/v/a.m4s'' ''/out'' merge_fs
   \<and> \<not> is_cancelled (run demo_env (init_worker ''/v/a.m4s'' ''/out'' False ''ffmpeg'' merge_fs))
   \<and> process_exit (run demo_env (init_worker ''/v/a.m4s'' ''/out'' False ''ffmpeg'' merge_fs))
       = Some 0
   \<and> Finished ''/out/a.mp3'' 4
       \<in> set (events (run demo_env (init_worker ''/v/a.m4s'' ''/out'' False ''ffmpeg'' merge_fs)))
   \<and> \<not> merge_fails failing_env ''/v/a.m4s'' ''/out'' merge_fs
   \<and> step_fails failing_env ''/v/a.m4s'' ''/out'' merge_fs
   \<and> (\<exists>e\<in>set (events (run failing_env
                          (init_worker ''/v/a.m4s'' ''/out'' False ''ffmpeg'' merge_fs))).
         is_failure e)"
proof -
  have m: "\<not> merge_fails demo_env ''/v/a.m4s'' ''/out'' merge_fs"
    by (simp add: merge_fails_def demo_env_def ok_proc_def)
  have a: "\<not> is_cancelled
      (run demo_env (init_worker ''/v/a.m4s'' ''/out'' False ''ffmpeg'' merge_fs))"
    unfolding run_cancelled by (simp add: demo_merge_path demo_flags)
  have b: "process_exit
      (run demo_env (init_worker ''/v/a.m4s'' ''/out'' False ''ffmpeg'' merge_fs)) = Some 0"
    unfolding run_exit by (simp add: demo_merge_path demo_flags)
  have c: "clock_end demo_env - clock_start demo_env = 4" by (simp add: demo_env_def)
  from finished_and_failure_errors
         [of demo_env "''/v/a.m4s''" "''/out''" False "''ffmpeg''" merge_fs, THEN conjunct2]
       m a b c
  have fin: "Finished ''/out/a.mp3'' 4
       \<in> set (events (run demo_env (init_worker ''/v/a.m4s'' ''/out'' False ''ffmpeg'' merge_fs)))"
    by (simp add: demo_paths)
  have fl: "makedirs_ok failing_env" "\<not> merge_cancelled failing_env"
    "\<not> cancel_during (encode_result failing_env)" "exit_code (encode_result failing_env) \<noteq> 0"
    "exit_code (merge_result failing_env) = 0"
    by (simp_all add: failing_env_def demo_env_def merge_cancelled_def ok_proc_def)
  have m': "\<not> merge_fails failing_env ''/v/a.m4s'' ''/out'' merge_fs"
    by (simp add: merge_fails_def fl)
  have s: "step_fails failing_env ''/v/a.m4s'' ''/out'' merge_fs"
    by (simp add: step_fails_def demo_merge_path fl)
  from finished_and_failure_errors
         [of failing_env "''/v/a.m4s''" "''/out''" False "''ffmpeg''" merge_fs, THEN conjunct2]
       m' s
  have ex: "\<exists>e\<in>set (events (run failing_env
                          (init_worker ''/v/a.m4s'' ''/out'' False ''ffmpeg'' merge_fs))).
         is_failure e"
    by simp
  from m a b fin m' s ex show ?thesis by simp
qed

subsection \<open>C2: the progress fractions\<close>

text \<open>
  C2, as stated: with a probed duration of 10 seconds the fractions of one job are
  0.9 (reported by the merge), then 0.5 and 2 (reported by the extraction): not
  non-decreasing, and not bounded by 1.
\<close>

theorem progress_beyond_one_and_back:
  "probed_duration demo_env = 10
   \<and> progress_fractions
       (events (run demo_env (init_worker ''/v/a.m4s'' ''/out'' True ''ffmpeg'' merge_fs)))
     = [9 / 10, 1 / 2, 2]"
  unfolding run_fractions by (simp add: demo_probe demo_times)

text \<open>
  C2, amended. When the probe output holds a duration \<open>D > 0\<close>, the worker emits one
  Progress event for each chunk of standard output it reads (one chunk per notification,
  the chunks of the merge before those of the encode) that holds a \<open>time=HH:MM:SS.ff\<close>
  token, with the fraction \<open>t / D\<close> for the first such token \<open>t\<close> of the chunk; later
  tokens of a chunk and chunks without a token give no event. These first times are
  \<open>job_times\<close>. Each fraction is at least 0; all are at most 1 exactly when none of these
  times exceeds \<open>D\<close>; the fractions are non-decreasing exactly when these times are.
\<close>

theorem progress_fractions_follow_times:
  assumes "0 < probed_duration env"
  shows "progress_fractions (events (run env (init_worker inp odir nz ff fs))) =
           map (\<lambda>t. t / probed_duration env) (job_times env inp odir fs)
   \<and> (\<forall>f\<in>set (progress_fractions (events (run env (init_worker inp odir nz ff fs)))). 0 \<le> f)
   \<and> ((\<forall>f\<in>set (progress_fractions (events (run env (init_worker inp odir nz ff fs)))). f \<le> 1)
        \<longleftrightarrow> (\<forall>t\<in>set (job_times env inp odir fs). t \<le> probed_duration env))
   \<and> (sorted (progress_fractions (events (run env (init_worker inp odir nz ff fs))))
        \<longleftrightarrow> sorted (job_times env inp odir fs))"
proof -
  have eq: "progress_fractions (events (run env (init_worker inp odir nz ff fs))) =
           map (\<lambda>t. t / probed_duration env) (job_times env inp odir fs)"
    unfolding run_fractions using assms by simp
  have nonneg: "\<forall>f\<in>set (map (\<lambda>t. t / probed_duration env) (job_times env inp odir fs)). 0 \<le> f"
    using assms job_times_nonneg[of _ env inp odir fs] by auto
  have le: "(\<forall>f\<in>set (map (\<lambda>t. t / probed_duration env) (job_times env inp odir fs)). f \<le> 1)
        \<longleftrightarrow> (\<forall>t\<in>set (job_times env inp odir fs). t \<le> probed_duration env)"
    using assms by simp
  show ?thesis unfolding eq using nonneg le sorted_scaled[OF assms] by blast
qed

theorem progress_fractions_follow_times_witness:
  "0 < probed_duration demo_env
   \<and> progress_fractions
       (events (run demo_env (init_worker ''/v/a.m4s'' ''/out'' False ''ffmpeg'' merge_fs)))
     = map (\<lambda>t. t / 10) [9, 5, 20]
   \<and> \<not> sorted (progress_fractions
       (events (run demo_env (init_worker ''/v/a.m4s'' ''/out'' False ''ffmpeg'' merge_fs))))"
proof -
  have a: "0 < probed_duration demo_env" by (simp add: demo_probe)
  from progress_fractions_follow_times
         [OF a, of "''/v/a.m4s''" "''/out''" False "''ffmpeg''" merge_fs] a
  show ?thesis by (simp add: demo_probe demo_times)
qed

subsection \<open>C3: cancellation\<close>

text \<open>
  C3. After \<open>cancel()\<close> no Finished event follows and the intermediate merged file is
  removed. On the code the second half fails when the cancellation arrives while the merge
  subprocess runs: \<open>run\<close> returns at the first check of the flag, and the file the merge
  has written stays.
\<close>

theorem cancel_during_merge_keeps_intermediate:
  "is_cancelled (run cancel_env (init_worker ''/v/a.m4s'' ''/out'' False ''ffmpeg'' merge_fs))
   \<and> ''/v/a_merged.ts'' \<notin> merge_fs
   \<and> ''/v/a_merged.ts''
        \<in> files (run cancel_env (init_worker ''/v/a.m4s'' ''/out'' False ''ffmpeg'' merge_fs))
   \<and> events (run cancel_env (init_worker ''/v/a.m4s'' ''/out'' False ''ffmpeg'' merge_fs))
        = [Progress (3 / 10) ''a.m4s'']"
proof -
  have c: "merge_cancelled cancel_env" "makedirs_ok cancel_env"
    "creates_output (merge_result cancel_env)"
    "chunks (merge_result cancel_env) = [Stdout ''time=00:00:03.00'']"
    by (simp_all add: merge_cancelled_def cancel_env_def demo_env_def)
  have d: "delivered cancel_env ''/v/a.m4s'' ''/out'' merge_fs = [Stdout ''time=00:00:03.00'']"
    by (simp add: delivered_def demo_merge_path c)
  have p: "probed_duration cancel_env = 10"
    by (simp add: probed_duration_def cancel_env_def demo_env_def eval_time)
  have t: "reported_times (Stdout ''time=00:00:03.00'') = [3]"
    by (simp add: eval_time)
  have e: "events (run cancel_env (init_worker ''/v/a.m4s'' ''/out'' False ''ffmpeg'' merge_fs))
        = [Progress (3 / 10) ''a.m4s'']"
    unfolding run_events d
    by (simp add: p t chunk_events_def final_events_def demo_merge_path c demo_paths
          del: reported_times.simps)
  have f: "''/v/a_merged.ts''
        \<in> files (run cancel_env (init_worker ''/v/a.m4s'' ''/out'' False ''ffmpeg'' merge_fs))"
    unfolding run_files
    by (simp add: final_files_def demo_merge_path c files_after_merge_def demo_paths)
  have g: "is_cancelled (run cancel_env (init_worker ''/v/a.m4s'' ''/out'' False ''ffmpeg'' merge_fs))"
    unfolding run_cancelled by (simp add: demo_merge_path c)
  have h: "''/v/a_merged.ts'' \<notin> merge_fs" by (simp add: merge_fs_def)
  from e f g h show ?thesis by simp
qed

subsection \<open>C4: a missing input\<close>

text \<open>
  C4. When the input path does not exist, \<open>run\<close> emits exactly one event, the Error
  saying that the input is missing: one Error, no Finished, no Progress. No subprocess
  is started.
\<close>

theorem missing_input_one_error:
  assumes "inp \<notin> fs"
  shows "events (run env (init_worker inp odir nz ff fs)) = [Error (InputMissing inp)]
       \<and> launched (run env (init_worker inp odir nz ff fs)) = []"
  unfolding run_missing[OF assms] by (simp add: init_worker_def)

theorem missing_input_one_error_witness:
  "''/v/gone.mp4'' \<notin> {''/v/clip one.mp4''}
   \<and> events (run demo_env (init_worker ''/v/gone.mp4'' ''/out'' False ''ffmpeg''
                 {''/v/clip one.mp4''})) = [Error (InputMissing ''/v/gone.mp4'')]"
  using missing_input_one_error
          [of "''/v/gone.mp4''" "{''/v/clip one.mp4''}" demo_env "''/out''" False "''ffmpeg''"]
  by simp

subsection \<open>C5: \<open>_time_str_to_seconds\<close>\<close>

text \<open>
  C5. \<open>_time_str_to_seconds\<close> maps \<open>00:01:30.50\<close> to 90.5 and \<open>1:02:03.25\<close> to 3723.25;
  a string of three parts \<open>H:M:S.ff\<close> parses to hours times 3600 plus minutes times 60
  plus seconds, and a string of two parts \<open>M:S.ff\<close> to minutes times 60 plus seconds.
\<close>

theorem time_str_to_seconds_parses:
  "time_str_to_seconds ''00:01:30.50'' = Inr 90.5
   \<and> time_str_to_seconds ''1:02:03.25'' = Inr 3723.25
   \<and> (all_digits h \<and> all_digits m \<and> all_digits s \<and> all_digits f \<longrightarrow>
        time_str_to_seconds (h @ '':'' @ m @ '':'' @ s @ ''.'' @ f) =
          Inr (real (digits_val h) * 3600 + real (digits_val m) * 60
               + (real (digits_val s) + real (digits_val f) / 10 ^ length f)))
   \<and> (all_digits m \<and> all_digits s \<and> all_digits f \<longrightarrow>
        time_str_to_seconds (m @ '':'' @ s @ ''.'' @ f) =
          Inr (real (digits_val m) * 60
               + (real (digits_val s) + real (digits_val f) / 10 ^ length f)))"
proof -
  have d: "all_digits ''00''" "all_digits ''01''" "all_digits ''30''" "all_digits ''50''"
    "all_digits ''1''" "all_digits ''02''" "all_digits ''03''" "all_digits ''25''"
    by (simp_all add: all_digits_def is_digit_def)
  have a: "time_str_to_seconds ''00:01:30.50'' = Inr 90.5"
    using time_of_hms[OF d(1) d(2) d(3) d(4)] by (simp add: digits_val_def digit_val_def)
  have b: "time_str_to_seconds ''1:02:03.25'' = Inr 3723.25"
    using time_of_hms[OF d(5) d(6) d(7) d(8)] by (simp add: digits_val_def digit_val_def)
  show ?thesis using a b by (simp add: time_of_hms time_of_ms)
qed

theorem time_str_to_seconds_parses_witness:
  "all_digits ''12'' \<and> all_digits ''34'' \<and> all_digits ''56'' \<and> all_digits ''75''
   \<and> time_str_to_seconds ''12:34:56.75'' = Inr 45296.75
   \<and> time_str_to_seconds ''34:56.75'' = Inr 2096.75"
proof -
  have d: "all_digits ''12''" "all_digits ''34''" "all_digits ''56''" "all_digits ''75''"
    by (simp_all add: all_digits_def is_digit_def)
  from d time_str_to_seconds_parses[of "''12''" "''34''" "''56''" "''75''"]
  show ?thesis by (simp add: digits_val_def digit_val_def)
qed

subsection \<open>C6: the output path\<close>

text \<open>
  C6. The output path is the output directory joined with the base name of the input, its
  extension replaced by \<open>.mp3\<close>: \<open>clip one.mp4\<close> gives \<open>clip one.mp3\<close> in the output
  directory, whatever characters the name is made of.
\<close>

theorem output_path_replaces_extension:
  "output_path_of inp odir = path_join odir (fst (splitext (basename inp)) @ ''.mp3'')
   \<and> (CHR ''/'' \<notin> set stem \<and> (\<exists>c\<in>set stem. c \<noteq> CHR ''.'') \<and>
      CHR ''/'' \<notin> set ext \<and> CHR ''.'' \<notin> set ext \<and> odir \<noteq> [] \<longrightarrow>
        output_path_of (dir @ ''/'' @ stem @ ''.'' @ ext) odir =
          (if last odir = CHR ''/'' then odir else odir @ ''/'') @ stem @ ''.mp3''
        \<and> output_path_of (stem @ ''.'' @ ext) odir =
          (if last odir = CHR ''/'' then odir else odir @ ''/'') @ stem @ ''.mp3'')
   \<and> (CHR ''/'' \<notin> set stem \<and> CHR ''.'' \<notin> set stem \<and> stem \<noteq> [] \<and> odir \<noteq> [] \<longrightarrow>
        output_path_of (dir @ ''/'' @ stem) odir =
          (if last odir = CHR ''/'' then odir else odir @ ''/'') @ stem @ ''.mp3'')"
  using output_path_with_ext(1)[where stem = stem and ext = ext and odir = odir and dir = dir]
    output_path_with_ext(2)[where stem = stem and ext = ext and odir = odir]
    output_path_without_ext[where name = stem and odir = odir and dir = dir]
  by (simp add: output_path_of_def)

theorem output_path_replaces_extension_witness:
  "output_path_of ''clip one.mp4'' ''/out'' = ''/out/clip one.mp3''
   \<and> output_path_of ''/v/clip one.mp4'' ''/out'' = ''/out/clip one.mp3''"
  using output_path_replaces_extension
          [where stem = "''clip one''" and ext = "''mp4''" and odir = "''/out''" and dir = "''/v''",
           THEN conjunct2]
  by simp

subsection \<open>C7: the command lines\<close>

text \<open>
  C7, as stated: the merge command line has a single \<open>-i\<close>. It has two, the input and
  the sibling audio segment.
\<close>

theorem merge_line_two_inputs:
  "hd (launched (run demo_env (init_worker ''/v/a.m4s'' ''/out'' False ''ffmpeg'' merge_fs)))
     \<noteq> [''ffmpeg'', ''-y'', ''-i'', ''/v/a.m4s'',
         ''-c:v'', ''copy'', ''-c:a'', ''copy'', ''-f'', ''mpegts'', ''/v/a_merged.ts'']"
  by (simp add: run_launched demo_merge_path merge_line_def demo_env_def)

text \<open>
  C7, amended. For a job whose input exists and whose output directory can be made, the
  subprocesses started through \<open>_run_ffmpeg\<close> are: on the merge path, first
  \<open>-y -i <in> -i <sibling .m4a> -c:v copy -c:a copy -f mpegts <merged>\<close>, then, unless the job
  was cancelled by then, \<open>-y -i <merged> -vn -ar 44100 -ac 2 -b:a 192k <out>\<close>; on the
  direct path \<open>-y -i <in> -vn -ar 44100 -ac 2 -b:a 192k <out>\<close>; with \<open>-af loudnorm\<close>
  just before the output path exactly when normalisation is requested.
\<close>

theorem launched_command_lines:
  assumes "inp \<in> fs" "makedirs_ok env"
  shows "launched (run env (init_worker inp odir nz ff fs)) =
     (if merge_path inp odir fs then
        [ff, ''-y'', ''-i'', inp, ''-i'', audio_file_of inp,
         ''-c:v'', ''copy'', ''-c:a'', ''copy'', ''-f'', ''mpegts'', merged_ts_of inp]
        # (if merge_cancelled env then []
           else [[ff, ''-y'', ''-i'', merged_ts_of inp,
                  ''-vn'', ''-ar'', ''44100'', ''-ac'', ''2'', ''-b:a'', ''192k'']
                 @ (if nz then [''-af'', ''loudnorm''] else [])
                 @ [output_path_of inp odir]])
      else [[ff, ''-y'', ''-i'', inp,
             ''-vn'', ''-ar'', ''44100'', ''-ac'', ''2'', ''-b:a'', ''192k'']
            @ (if nz then [''-af'', ''loudnorm''] else [])
            @ [output_path_of inp odir]])"
  using assms by (simp add: run_launched merge_line_def encode_line_def)

theorem launched_command_lines_witness:
  "launched (run demo_env (init_worker ''/v/a.m4s'' ''/out'' True ''ffmpeg'' merge_fs)) =
     [[''ffmpeg'', ''-y'', ''-i'', ''/v/a.m4s'', ''-i'', ''/v/a.m4a'',
       ''-c:v'', ''copy'', ''-c:a'', ''copy'', ''-f'', ''mpegts'', ''/v/a_merged.ts''],
      [''ffmpeg'', ''-y'', ''-i'', ''/v/a_merged.ts'',
       ''-vn'', ''-ar'', ''44100'', ''-ac'', ''2'', ''-b:a'', ''192k'', ''-af'', ''loudnorm'',
       ''/out/a.mp3'']]"
proof -
  have a: "''/v/a.m4s'' \<in> merge_fs" by (simp add: merge_fs_def)
  have b: "makedirs_ok demo_env" by (simp add: demo_env_def)
  have c: "\<not> merge_cancelled demo_env" by (simp add: merge_cancelled_def demo_env_def ok_proc_def)
  show ?thesis
    using launched_command_lines[OF a b, of "''/out''" True "''ffmpeg''"] c
    by (simp add: demo_merge_path demo_paths)
qed

subsection \<open>C8: a probe without duration\<close>

text \<open>
  C8. When the probe output holds no \<open>Duration: HH:MM:SS.ff\<close> token, the total duration
  stays 0 and no Progress event is emitted, and the conversion goes on: for an input that
  exists and an output directory that can be made the conversion subprocesses are started
  with their command lines, a job that is not cancelled and whose last subprocess exits
  with 0 emits Finished, and the subprocesses started, the other events and the files are
  what they would be with any other probe output.
\<close>

theorem probe_failure_not_fatal:
  assumes "re_search ''Duration: '' (probe_stderr env) = None"
  shows "total_duration (run env (init_worker inp odir nz ff fs)) = 0
   \<and> filter is_progress (events (run env (init_worker inp odir nz ff fs))) = []
   \<and> launched (run env (init_worker inp odir nz ff fs)) =
       launched (run (env\<lparr>probe_stderr := p\<rparr>) (init_worker inp odir nz ff fs))
   \<and> filter (\<lambda>e. \<not> is_progress e) (events (run env (init_worker inp odir nz ff fs))) =
       filter (\<lambda>e. \<not> is_progress e)
         (events (run (env\<lparr>probe_stderr := p\<rparr>) (init_worker inp odir nz ff fs)))
   \<and> files (run env (init_worker inp odir nz ff fs)) =
       files (run (env\<lparr>probe_stderr := p\<rparr>) (init_worker inp odir nz ff fs))
   \<and> (inp \<in> fs \<and> makedirs_ok env \<longrightarrow>
        launched (run env (init_worker inp odir nz ff fs)) =
          (if merge_path inp odir fs then
             [ff, ''-y'', ''-i'', inp, ''-i'', audio_file_of inp,
              ''-c:v'', ''copy'', ''-c:a'', ''copy'', ''-f'', ''mpegts'', merged_ts_of inp]
             # (if merge_cancelled env then []
                else [[ff, ''-y'', ''-i'', merged_ts_of inp,
                       ''-vn'', ''-ar'', ''44100'', ''-ac'', ''2'', ''-b:a'', ''192k'']
                      @ (if nz then [''-af'', ''loudnorm''] else [])
                      @ [output_path_of inp odir]])
           else [[ff, ''-y'', ''-i'', inp,
                  ''-vn'', ''-ar'', ''44100'', ''-ac'', ''2'', ''-b:a'', ''192k'']
                 @ (if nz then [''-af'', ''loudnorm''] else [])
                 @ [output_path_of inp odir]]))
   \<and> (\<not> is_cancelled (run env (init_worker inp odir nz ff fs))
        \<and> process_exit (run env (init_worker inp odir nz ff fs)) = Some 0 \<longrightarrow>
          Finished (output_path_of inp odir) (clock_end env - clock_start env)
            \<in> set (events (run env (init_worker inp odir nz ff fs))))"
proof -
  have d: "probed_duration env = 0" using assms by (simp add: probed_duration_def)
  have 1: "total_duration (run env (init_worker inp odir nz ff fs)) = 0"
    unfolding run_total by (simp add: d)
  have 2: "filter is_progress (events (run env (init_worker inp odir nz ff fs))) = []"
    unfolding run_progress by (simp add: d)
  have 3: "launched (run env (init_worker inp odir nz ff fs)) =
       launched (run (env\<lparr>probe_stderr := p\<rparr>) (init_worker inp odir nz ff fs))"
    unfolding run_launched by (simp add: probe_irrelevant)
  have 4: "filter (\<lambda>e. \<not> is_progress e) (events (run env (init_worker inp odir nz ff fs))) =
       filter (\<lambda>e. \<not> is_progress e)
         (events (run (env\<lparr>probe_stderr := p\<rparr>) (init_worker inp odir nz ff fs)))"
    unfolding run_other_events by (simp add: probe_irrelevant job_stderr_def)
  have 5: "files (run env (init_worker inp odir nz ff fs)) =
       files (run (env\<lparr>probe_stderr := p\<rparr>) (init_worker inp odir nz ff fs))"
    unfolding run_files by (simp add: probe_irrelevant)
  have 6: "inp \<in> fs \<and> makedirs_ok env \<longrightarrow>
        launched (run env (init_worker inp odir nz ff fs)) =
          (if merge_path inp odir fs then
             [ff, ''-y'', ''-i'', inp, ''-i'', audio_file_of inp,
              ''-c:v'', ''copy'', ''-c:a'', ''copy'', ''-f'', ''mpegts'', merged_ts_of inp]
             # (if merge_cancelled env then []
                else [[ff, ''-y'', ''-i'', merged_ts_of inp,
                       ''-vn'', ''-ar'', ''44100'', ''-ac'', ''2'', ''-b:a'', ''192k'']
                      @ (if nz then [''-af'', ''loudnorm''] else [])
                      @ [output_path_of inp odir]])
           else [[ff, ''-y'', ''-i'', inp,
                  ''-vn'', ''-ar'', ''44100'', ''-ac'', ''2'', ''-b:a'', ''192k'']
                 @ (if nz then [''-af'', ''loudnorm''] else [])
                 @ [output_path_of inp odir]])"
    by (simp add: run_launched merge_line_def encode_line_def)
  have 7: "\<not> is_cancelled (run env (init_worker inp odir nz ff fs))
        \<and> process_exit (run env (init_worker inp odir nz ff fs)) = Some 0 \<longrightarrow>
          Finished (output_path_of inp odir) (clock_end env - clock_start env)
            \<in> set (events (run env (init_worker inp odir nz ff fs)))"
    using finished_final[of env inp odir nz ff fs] unfolding run_events by simp
  from 1 2 3 4 5 6 7 show ?thesis by blast
qed

theorem probe_failure_not_fatal_witness:
  "re_search ''Duration: '' (probe_stderr silent_probe_env) = None
   \<and> filter is_progress
       (events (run silent_probe_env (init_worker ''/v/a.m4s'' ''/out'' True ''ffmpeg'' merge_fs)))
     = []
   \<and> launched (run silent_probe_env (init_worker ''/v/a.m4s'' ''/out'' True ''ffmpeg'' merge_fs))
     = launched (run demo_env (init_worker ''/v/a.m4s'' ''/out'' True ''ffmpeg'' merge_fs))
   \<and> launched (run silent_probe_env (init_worker ''/v/a.m4s'' ''/out'' True ''ffmpeg'' merge_fs))
     = [[''ffmpeg'', ''-y'', ''-i'', ''/v/a.m4s'', ''-i'', ''/v/a.m4a'',
         ''-c:v'', ''copy'', ''-c:a'', ''copy'', ''-f'', ''mpegts'', ''/v/a_merged.ts''],
        [''ffmpeg'', ''-y'', ''-i'', ''/v/a_merged.ts'',
         ''-vn'', ''-ar'', ''44100'', ''-ac'', ''2'', ''-b:a'', ''192k'', ''-af'', ''loudnorm'',
         ''/out/a.mp3'']]
   \<and> Finished ''/out/a.mp3'' 4
       \<in> set (events (run silent_probe_env
                 (init_worker ''/v/a.m4s'' ''/out'' True ''ffmpeg'' merge_fs)))"
proof -
  have a: "re_search ''Duration: '' (probe_stderr silent_probe_env) = None"
    by (simp add: silent_probe_env_def eval_time)
  have b: "silent_probe_env\<lparr>probe_stderr := probe_stderr demo_env\<rparr> = demo_env"
    by (simp add: silent_probe_env_def)
  have fl: "makedirs_ok silent_probe_env" "\<not> merge_cancelled silent_probe_env"
    "\<not> cancel_during (encode_result silent_probe_env)"
    "exit_code (encode_result silent_probe_env) = 0"
    "clock_end silent_probe_env - clock_start silent_probe_env = 4"
    by (simp_all add: silent_probe_env_def demo_env_def merge_cancelled_def ok_proc_def)
  have c: "\<not> is_cancelled
      (run silent_probe_env (init_worker ''/v/a.m4s'' ''/out'' True ''ffmpeg'' merge_fs))"
    unfolding run_cancelled by (simp add: demo_merge_path fl)
  have e: "process_exit
      (run silent_probe_env (init_worker ''/v/a.m4s'' ''/out'' True ''ffmpeg'' merge_fs)) = Some 0"
    unfolding run_exit by (simp add: demo_merge_path fl)
  note th = probe_failure_not_fatal[OF a, of "''/v/a.m4s''" "''/out''" True "''ffmpeg''" merge_fs
         "probe_stderr demo_env", unfolded b]
  from th have 2: "filter is_progress
       (events (run silent_probe_env (init_worker ''/v/a.m4s'' ''/out'' True ''ffmpeg'' merge_fs)))
     = []" by blast
  from th have 3: "launched
        (run silent_probe_env (init_worker ''/v/a.m4s'' ''/out'' True ''ffmpeg'' merge_fs))
     = launched (run demo_env (init_worker ''/v/a.m4s'' ''/out'' True ''ffmpeg'' merge_fs))"
    by blast
  from th demo_merge_path fl(1) have "launched
        (run silent_probe_env (init_worker ''/v/a.m4s'' ''/out'' True ''ffmpeg'' merge_fs))
     = (if merge_path ''/v/a.m4s'' ''/out'' merge_fs then
             [''ffmpeg'', ''-y'', ''-i'', ''/v/a.m4s'', ''-i'', audio_file_of ''/v/a.m4s'',
              ''-c:v'', ''copy'', ''-c:a'', ''copy'', ''-f'', ''mpegts'', merged_ts_of ''/v/a.m4s'']
             # (if merge_cancelled silent_probe_env then []
                else [[''ffmpeg'', ''-y'', ''-i'', merged_ts_of ''/v/a.m4s'',
                       ''-vn'', ''-ar'', ''44100'', ''-ac'', ''2'', ''-b:a'', ''192k'']
                      @ (if True then [''-af'', ''loudnorm''] else [])
                      @ [output_path_of ''/v/a.m4s'' ''/out'']])
           else [[''ffmpeg'', ''-y'', ''-i'', ''/v/a.m4s'',
                  ''-vn'', ''-ar'', ''44100'', ''-ac'', ''2'', ''-b:a'', ''192k'']
                 @ (if True then [''-af'', ''loudnorm''] else [])
                 @ [output_path_of ''/v/a.m4s'' ''/out'']])"
    by blast
  then have 6: "launched
        (run silent_probe_env (init_worker ''/v/a.m4s'' ''/out'' True ''ffmpeg'' merge_fs))
     = [[''ffmpeg'', ''-y'', ''-i'', ''/v/a.m4s'', ''-i'', ''/v/a.m4a'',
         ''-c:v'', ''copy'', ''-c:a'', ''copy'', ''-f'', ''mpegts'', ''/v/a_merged.ts''],
        [''ffmpeg'', ''-y'', ''-i'', ''/v/a_merged.ts'',
         ''-vn'', ''-ar'', ''44100'', ''-ac'', ''2'', ''-b:a'', ''192k'', ''-af'', ''loudnorm'',
         ''/out/a.mp3'']]"
    by (simp add: demo_merge_path fl demo_paths)
  from th c e have "Finished (output_path_of ''/v/a.m4s'' ''/out'')
          (clock_end silent_probe_env - clock_start silent_probe_env)
       \<in> set (events (run silent_probe_env
                 (init_worker ''/v/a.m4s'' ''/out'' True ''ffmpeg'' merge_fs)))"
    by blast
  then have 7: "Finished ''/out/a.mp3'' 4
       \<in> set (events (run silent_probe_env
                 (init_worker ''/v/a.m4s'' ''/out'' True ''ffmpeg'' merge_fs)))"
    by (simp add: fl demo_paths)
  from a 2 3 6 7 show ?thesis by blast
qed

subsection \<open>C9: a failed extraction\<close>

text \<open>
  C9. On the merge path, when the extraction subprocess exits with a non-zero code and the
  job is not cancelled, the worker emits the extraction-failed Error and removes nothing:
  the intermediate merged file stays. The intermediate is removed only after an extraction
  that exited with 0 or that was cancelled.
\<close>

theorem failed_extraction_keeps_intermediate:
  assumes "inp \<in> fs" "makedirs_ok env" "merge_path inp odir fs"
  shows "(\<not> merge_cancelled env \<and> \<not> cancel_during (encode_result env)
          \<and> exit_code (encode_result env) \<noteq> 0 \<longrightarrow>
            Error ExtractFailed \<in> set (events (run env (init_worker inp odir nz ff fs)))
            \<and> files (run env (init_worker inp odir nz ff fs)) = files_after_extract env inp odir fs
            \<and> (merged_ts_of inp \<in> files_after_merge env inp odir fs \<longrightarrow>
                 merged_ts_of inp \<in> files (run env (init_worker inp odir nz ff fs))))
       \<and> (merged_ts_of inp \<in> files_after_merge env inp odir fs
          \<and> merged_ts_of inp \<notin> files (run env (init_worker inp odir nz ff fs)) \<longrightarrow>
            \<not> merge_cancelled env
            \<and> (cancel_during (encode_result env) \<or> exit_code (encode_result env) = 0))"
  unfolding run_events run_files
  using assms
  by (simp add: final_events_def final_files_def encode_outcome_def removal_raises_def
        files_after_extract_def)

theorem failed_extraction_keeps_intermediate_witness:
  "Error ExtractFailed
     \<in> set (events (run failing_env (init_worker ''/v/a.m4s'' ''/out'' False ''ffmpeg'' merge_fs)))
   \<and> ''/v/a_merged.ts''
     \<in> files (run failing_env (init_worker ''/v/a.m4s'' ''/out'' False ''ffmpeg'' merge_fs))"
proof -
  have a: "makedirs_ok failing_env" "\<not> merge_cancelled failing_env"
    "\<not> cancel_during (encode_result failing_env)" "exit_code (encode_result failing_env) \<noteq> 0"
    "creates_output (merge_result failing_env)"
    by (simp_all add: failing_env_def demo_env_def merge_cancelled_def ok_proc_def)
  from failed_extraction_keeps_intermediate
         [OF demo_merge_path(1) a(1) demo_merge_path(2), of False "''ffmpeg''"] a
  show ?thesis by (simp add: files_after_merge_def files_after_extract_def demo_paths)
qed

subsection \<open>C10: what a Progress event carries\<close>

text \<open>
  C10. Every Progress event names the base name of the job's own input path, and its
  fraction is a time reported on standard output divided by the duration probed from that
  input; so it is on the merge path too, for the merge subprocess and for the extraction
  that reads the intermediate file.
\<close>

theorem progress_names_input:
  "(\<forall>e\<in>set (events (run env (init_worker inp odir nz ff fs))). is_progress e \<longrightarrow>
       (\<exists>t\<in>set (job_times env inp odir fs).
           e = Progress (t / probed_duration env) (basename inp)))
   \<and> (inp \<in> fs \<and> makedirs_ok env \<and> merge_path inp odir fs \<and> \<not> merge_cancelled env
       \<and> 0 < probed_duration env \<longrightarrow>
         filter is_progress (events (run env (init_worker inp odir nz ff fs))) =
           map (\<lambda>t. Progress (t / probed_duration env) (basename inp))
             (concat (map reported_times (chunks (merge_result env)))
              @ concat (map reported_times (chunks (encode_result env)))))"
proof -
  have "e \<in> set (events (run env (init_worker inp odir nz ff fs))) \<Longrightarrow> is_progress e \<Longrightarrow>
       \<exists>t\<in>set (job_times env inp odir fs). e = Progress (t / probed_duration env) (basename inp)" for e
  proof -
    assume "e \<in> set (events (run env (init_worker inp odir nz ff fs)))" "is_progress e"
    then have "e \<in> set (filter is_progress (events (run env (init_worker inp odir nz ff fs))))"
      by simp
    then show ?thesis unfolding run_progress by (auto split: if_splits)
  qed
  moreover have "inp \<in> fs \<and> makedirs_ok env \<and> merge_path inp odir fs \<and> \<not> merge_cancelled env
       \<and> 0 < probed_duration env \<longrightarrow>
         filter is_progress (events (run env (init_worker inp odir nz ff fs))) =
           map (\<lambda>t. Progress (t / probed_duration env) (basename inp))
             (concat (map reported_times (chunks (merge_result env)))
              @ concat (map reported_times (chunks (encode_result env))))"
    unfolding run_progress by (simp add: job_times_def delivered_def)
  ultimately show ?thesis by blast
qed

theorem progress_names_input_witness:
  "''/v/a.m4s'' \<in> merge_fs \<and> makedirs_ok demo_env \<and> merge_path ''/v/a.m4s'' ''/out'' merge_fs
   \<and> \<not> merge_cancelled demo_env \<and> 0 < probed_duration demo_env
   \<and> filter is_progress
       (events (run demo_env (init_worker ''/v/a.m4s'' ''/out'' True ''ffmpeg'' merge_fs))) =
     [Progress (9 / 10) ''a.m4s'', Progress (1 / 2) ''a.m4s'', Progress 2 ''a.m4s'']"
  using progress_names_input
          [of demo_env "''/v/a.m4s''" "''/out''" True "''ffmpeg''" merge_fs, THEN conjunct2]
  by (simp add: demo_merge_path demo_flags demo_probe demo_reported demo_paths
        del: reported_times.simps)

end
